theory Spec2Isabelle
  imports Main
begin

section \<open>JavaScript values used by the two adapters\<close>

text \<open>
  Strings are lists of characters. Numbers are the integers plus \<open>NaN\<close>: clock readings,
  ratings, time stamps and increments are whole numbers in both services' payloads, and
  double rounding (beyond \<open>2^53\<close>) is not modelled.
\<close>

datatype jsnum = NaN | Num int

fun jsAdd :: "jsnum \<Rightarrow> jsnum \<Rightarrow> jsnum" where
  "jsAdd (Num a) (Num b) = Num (a + b)"
| "jsAdd _ _ = NaN"

fun jsSub :: "jsnum \<Rightarrow> jsnum \<Rightarrow> jsnum" where
  "jsSub (Num a) (Num b) = Num (a - b)"
| "jsSub _ _ = NaN"

fun jsMul :: "jsnum \<Rightarrow> jsnum \<Rightarrow> jsnum" where
  "jsMul (Num a) (Num b) = Num (a * b)"
| "jsMul _ _ = NaN"

text \<open>Comparisons with \<open>NaN\<close> are false, whichever side it stands on.\<close>

fun jsGt :: "jsnum \<Rightarrow> jsnum \<Rightarrow> bool" where
  "jsGt (Num a) (Num b) = (a > b)"
| "jsGt _ _ = False"

fun jsLe :: "jsnum \<Rightarrow> jsnum \<Rightarrow> bool" where
  "jsLe (Num a) (Num b) = (a \<le> b)"
| "jsLe _ _ = False"

fun jsGe :: "jsnum \<Rightarrow> jsnum \<Rightarrow> bool" where
  "jsGe (Num a) (Num b) = (a \<ge> b)"
| "jsGe _ _ = False"

text \<open>\<open>a % b\<close>: the remainder takes the sign of the dividend.\<close>

definition jsRem :: "int \<Rightarrow> int \<Rightarrow> int" where
  "jsRem a b = (if a < 0 then - ((- a) mod \<bar>b\<bar>) else a mod \<bar>b\<bar>)"

subsection \<open>Character classes of the regular expressions\<close>

definition isDigit :: "char \<Rightarrow> bool" where
  "isDigit c = (c \<in> set ''0123456789'')"

text \<open>\<open>\s\<close>, on the characters below U+0100: tab, line feed, vertical tab, form feed,
  carriage return, space and the no-break space.\<close>

definition isSpace :: "char \<Rightarrow> bool" where
  "isSpace c = (c \<in> set [CHR 0x09, CHR 0x0A, CHR 0x0B, CHR 0x0C, CHR 0x0D, CHR '' '', CHR 0xA0])"

text \<open>The characters \<open>.\<close> does not match.\<close>

definition isLineTerminator :: "char \<Rightarrow> bool" where
  "isLineTerminator c = (c = CHR 0x0A \<or> c = CHR 0x0D)"

subsection \<open>Numbers and strings\<close>

definition digitChar :: "nat \<Rightarrow> char" where
  "digitChar d = ''0123456789'' ! d"

definition digitVal :: "char \<Rightarrow> nat" where
  "digitVal c = (if isDigit c then length (takeWhile (\<lambda>d. d \<noteq> c) ''0123456789'') else 0)"

text \<open>The value of a string of decimal digits, most significant digit first.\<close>

definition digitsVal :: "string \<Rightarrow> nat" where
  "digitsVal s = foldl (\<lambda>acc c. 10 * acc + digitVal c) 0 s"

text \<open>\<open>Number.prototype.toString\<close> on a whole number.\<close>

fun showNat :: "nat \<Rightarrow> string" where
  "showNat n = (if n < 10 then [digitChar n] else showNat (n div 10) @ [digitChar (n mod 10)])"

declare showNat.simps [simp del]

definition showInt :: "int \<Rightarrow> string" where
  "showInt i = (if i < 0 then CHR ''-'' # showNat (nat (- i)) else showNat (nat i))"

definition jsToString :: "jsnum \<Rightarrow> string" where
  "jsToString x = (case x of NaN \<Rightarrow> ''NaN'' | Num i \<Rightarrow> showInt i)"

text \<open>\<open>String.prototype.trim\<close>.\<close>

definition trim :: "string \<Rightarrow> string" where
  "trim s = rev (dropWhile isSpace (rev (dropWhile isSpace s)))"

text \<open>
  \<open>Number(s)\<close> on the literals the adapters meet: surrounding white space is dropped, the
  empty string is 0, an optionally signed string of decimal digits is its value (the
  double of JavaScript is that value below \<open>2^53\<close>, and the nearest double beyond), and
  any other text is \<open>NaN\<close>. JavaScript also reads literals with a fraction, an exponent or a
  radix prefix, and \<open>Infinity\<close>; their values lie outside \<^typ>\<open>jsnum\<close>, no string that
  the adapters build contains one, and no property below rests on what \<open>Number\<close> makes
  of them: a string counts as unparsable only when it is \<open>notNumeric\<close>, that is, holds a
  character that no numeric literal of JavaScript contains.
\<close>

definition Number :: "string \<Rightarrow> jsnum" where
  "Number s =
     (let t = trim s in
      if t = [] then Num 0
      else if list_all isDigit t then Num (int (digitsVal t))
      else if hd t = CHR ''-'' \<and> tl t \<noteq> [] \<and> list_all isDigit (tl t)
        then Num (- int (digitsVal (tl t)))
      else if hd t = CHR ''+'' \<and> tl t \<noteq> [] \<and> list_all isDigit (tl t)
        then Num (int (digitsVal (tl t)))
      else NaN)"

definition numeralChars :: string where
  "numeralChars = ''0123456789+-.abcdefABCDEFxXoOInity''"

definition notNumeric :: "string \<Rightarrow> bool" where
  "notNumeric s = list_ex (\<lambda>c. \<not> isSpace c \<and> c \<notin> set numeralChars) s"

text \<open>
  The numbers of JavaScript are doubles. A whole number below \<open>10^15\<close> in magnitude is
  one exactly (it is below \<open>2^53\<close>), and on such numbers the sums, differences and
  products by 60 and 3600 that the adapters form, \<open>Math.floor\<close> of their quotients by
  60 and 100, their remainders and their decimal renderings are those of the integers.
  Beyond that range a double rounds, and \<^typ>\<open>jsnum\<close> does not follow it: every
  property below that depends on the value of a number is stated within the range.
  \<open>decimalBelow bound x\<close> says that \<open>x\<close> is a number below \<open>bound\<close> written in decimal
  digits; \<open>exact x\<close> that the integer \<open>x\<close> is within the range.
\<close>

definition exactLimit :: nat where
  "exactLimit = 1000000000000000"

definition decimalBelow :: "nat \<Rightarrow> string \<Rightarrow> bool" where
  "decimalBelow bound x = (x \<noteq> [] \<and> list_all isDigit x \<and> digitsVal x < bound)"


text \<open>\<open>s.split(sep)\<close> for a separator of one character: never the empty list.\<close>

fun split :: "char \<Rightarrow> string \<Rightarrow> string list" where
  "split sep [] = [[]]"
| "split sep (c # cs) =
     (if c = sep then [] # split sep cs
      else (case split sep cs of [] \<Rightarrow> [[c]] | p # ps \<Rightarrow> (c # p) # ps))"

text \<open>An element of a destructured array of numbers; a missing one is \<open>undefined\<close>, which
  arithmetic turns into \<open>NaN\<close>.\<close>

definition elem :: "jsnum list \<Rightarrow> nat \<Rightarrow> jsnum" where
  "elem xs i = (if i < length xs then xs ! i else NaN)"

text \<open>\<open>s.padStart(2, '0')\<close>.\<close>

definition padStart2 :: "string \<Rightarrow> string" where
  "padStart2 s = replicate (2 - length s) (CHR ''0'') @ s"

text \<open>\<open>s.startsWith(p)\<close> and \<open>s.includes(p)\<close>.\<close>

fun startsWith :: "string \<Rightarrow> string \<Rightarrow> bool" where
  "startsWith s [] = True"
| "startsWith [] (p # ps) = False"
| "startsWith (c # cs) (p # ps) = (c = p \<and> startsWith cs ps)"

fun includes_js :: "string \<Rightarrow> string \<Rightarrow> bool" where
  "includes_js [] p = (p = [])"
| "includes_js (c # cs) p = (startsWith (c # cs) p \<or> includes_js cs p)"

text \<open>\<open>String.prototype.toLowerCase\<close> on the characters below U+0100: the capitals \<open>A\<close> to
  \<open>Z\<close> and the capitals from U+00C0 to U+00DE other than the multiplication sign U+00D7 are
  mapped to the letter \<open>0x20\<close> above them, and every other character is kept. Characters
  from U+0100 on are not represented.\<close>

definition upperLetters :: string where
  "upperLetters = ''ABCDEFGHIJKLMNOPQRSTUVWXYZ'' @
     [CHR 0xC0, CHR 0xC1, CHR 0xC2, CHR 0xC3, CHR 0xC4, CHR 0xC5, CHR 0xC6, CHR 0xC7,
      CHR 0xC8, CHR 0xC9, CHR 0xCA, CHR 0xCB, CHR 0xCC, CHR 0xCD, CHR 0xCE, CHR 0xCF,
      CHR 0xD0, CHR 0xD1, CHR 0xD2, CHR 0xD3, CHR 0xD4, CHR 0xD5, CHR 0xD6, CHR 0xD8,
      CHR 0xD9, CHR 0xDA, CHR 0xDB, CHR 0xDC, CHR 0xDD, CHR 0xDE]"

definition lowerLetters :: string where
  "lowerLetters = ''abcdefghijklmnopqrstuvwxyz'' @
     [CHR 0xE0, CHR 0xE1, CHR 0xE2, CHR 0xE3, CHR 0xE4, CHR 0xE5, CHR 0xE6, CHR 0xE7,
      CHR 0xE8, CHR 0xE9, CHR 0xEA, CHR 0xEB, CHR 0xEC, CHR 0xED, CHR 0xEE, CHR 0xEF,
      CHR 0xF0, CHR 0xF1, CHR 0xF2, CHR 0xF3, CHR 0xF4, CHR 0xF5, CHR 0xF6, CHR 0xF8,
      CHR 0xF9, CHR 0xFA, CHR 0xFB, CHR 0xFC, CHR 0xFD, CHR 0xFE]"

definition lowerChar :: "char \<Rightarrow> char" where
  "lowerChar c =
     (case List.find (\<lambda>(u, l). u = c) (zip upperLetters lowerLetters) of
        None \<Rightarrow> c
      | Some (u, l) \<Rightarrow> l)"

definition toLowerCase :: "string \<Rightarrow> string" where
  "toLowerCase s = map lowerChar s"

section \<open>Service A: the PGN adapter (chess-com.ts)\<close>

subsection \<open>parseClockComment\<close>

text \<open>
  One attempt of \<open>/\[%clk\s+(\d+):(\d+):(\d+(?:\.\d+)?)\]/\<close> at the head of a string:
  the three groups, if it matches there. Every repetition is followed by a character
  outside its class, so the greedy choice is the only one that can succeed.
\<close>

definition clkSeconds :: "string \<Rightarrow> string option" where
  "clkSeconds r =
     (let sec = takeWhile isDigit r; r1 = dropWhile isDigit r in
      if sec = [] then None
      else (case r1 of
          [] \<Rightarrow> None
        | c # r2 \<Rightarrow>
            if c = CHR '']'' then Some sec
            else if c = CHR ''.'' then
              (let frac = takeWhile isDigit r2; r3 = dropWhile isDigit r2 in
               if frac \<noteq> [] \<and> startsWith r3 '']'' then Some (sec @ CHR ''.'' # frac) else None)
            else None))"

definition clkField :: "string \<Rightarrow> (string \<times> string) option" where
  "clkField r =
     (let d = takeWhile isDigit r; r1 = dropWhile isDigit r in
      if d = [] then None
      else (case r1 of [] \<Rightarrow> None | c # r2 \<Rightarrow> if c = CHR '':'' then Some (d, r2) else None))"

definition matchClkAt :: "string \<Rightarrow> (string \<times> string \<times> string) option" where
  "matchClkAt s =
     (if \<not> startsWith s ''[%clk'' then None
      else
        (let r0 = drop 5 s in
         if takeWhile isSpace r0 = [] then None
         else (case clkField (dropWhile isSpace r0) of
             None \<Rightarrow> None
           | Some (hours, r1) \<Rightarrow>
               (case clkField r1 of
                  None \<Rightarrow> None
                | Some (minutes, r2) \<Rightarrow>
                    (case clkSeconds r2 of
                       None \<Rightarrow> None
                     | Some seconds \<Rightarrow> Some (hours, minutes, seconds))))))"

text \<open>\<open>comment.match(...)\<close>: the leftmost position where the pattern matches.\<close>

fun searchClk :: "string \<Rightarrow> (string \<times> string \<times> string) option" where
  "searchClk [] = matchClkAt []"
| "searchClk (c # cs) =
     (case matchClkAt (c # cs) of Some g \<Rightarrow> Some g | None \<Rightarrow> searchClk cs)"

text \<open>\<open>Math.floor(parseFloat(seconds))\<close> for the third group, digits with an optional
  fraction: the value of the digits before the point. The decimal is read exactly; a
  double gives the same whole number for seconds below 1000 with a fraction of at most
  13 digits, and may round up to the next second beyond that (\<open>59.99999999999999999\<close>
  is read as 60). The properties of \<open>parseClockComment\<close> are stated within that range.\<close>

definition floorParseFloat :: "string \<Rightarrow> nat" where
  "floorParseFloat seconds = digitsVal (takeWhile isDigit seconds)"

definition parseClockComment :: "string \<Rightarrow> string option" where
  "parseClockComment comment =
     (case searchClk comment of
        Some (hours, minutes, seconds) \<Rightarrow>
          Some (hours @ '':'' @ minutes @ '':'' @ showNat (floorParseFloat seconds))
      | None \<Rightarrow> None)"

subsection \<open>calculateTimeSpent\<close>

definition chesscom_calculateTimeSpent :: "string \<Rightarrow> string \<Rightarrow> string option" where
  "chesscom_calculateTimeSpent currentTime previousTime =
     (let cur = map Number (split (CHR '':'') currentTime);
          prev = map Number (split (CHR '':'') previousTime);
          currentTotal =
            jsAdd (jsAdd (jsMul (elem cur 0) (Num 3600)) (jsMul (elem cur 1) (Num 60))) (elem cur 2);
          previousTotal =
            jsAdd (jsAdd (jsMul (elem prev 0) (Num 3600)) (jsMul (elem prev 1) (Num 60))) (elem prev 2);
          timeSpent = jsSub previousTotal currentTotal
      in if jsGt timeSpent (Num 0) then Some (jsToString timeSpent) else None)"

subsection \<open>formatPGN\<close>

record ClockInfo =
  time :: string
  moveText :: string
  moveNumber :: nat
  isWhite :: bool
  timeSpent :: "string option"

text \<open>
  \<open>pgn.replace(/\[.*?\]\s*\n/g, '')\<close>. \<open>spaceNewlineLen\<close> is \<open>\s*\n\<close> at the head of
  a string: the white space is taken greedily and given back down to its last line feed.
  \<open>headerBodyLen\<close> is the lazy \<open>.*?\]\s*\n\<close>: at every character it first tries to
  close the match, and otherwise lets \<open>.\<close> take the character. Both return the number of
  characters matched.
\<close>

definition spaceNewlineLen :: "string \<Rightarrow> nat option" where
  "spaceNewlineLen r =
     (let upto = rev (dropWhile (\<lambda>c. c \<noteq> CHR 0x0A) (rev (takeWhile isSpace r)))
      in if upto = [] then None else Some (length upto))"

fun headerBodyLen :: "string \<Rightarrow> nat option" where
  "headerBodyLen [] = None"
| "headerBodyLen (c # cs) =
     (case (if c = CHR '']'' then spaceNewlineLen cs else None) of
        Some n \<Rightarrow> Some (Suc n)
      | None \<Rightarrow> if isLineTerminator c then None else map_option Suc (headerBodyLen cs))"

definition matchHeaderAt :: "string \<Rightarrow> nat option" where
  "matchHeaderAt s =
     (case s of
        [] \<Rightarrow> None
      | c # cs \<Rightarrow> if c = CHR ''['' then map_option Suc (headerBodyLen cs) else None)"

text \<open>The global replace, left to right; \<open>k\<close> counts the characters of the current match
  that are still to be dropped.\<close>

fun removeHeaders :: "nat \<Rightarrow> string \<Rightarrow> string" where
  "removeHeaders k [] = []"
| "removeHeaders k (c # cs) =
     (if k > 0 then removeHeaders (k - 1) cs
      else (case matchHeaderAt (c # cs) of
          Some n \<Rightarrow> removeHeaders (n - 1) cs
        | None \<Rightarrow> c # removeHeaders 0 cs))"

text \<open>
  The move pattern \<open>/(\d+\.(?:\.\.)?\s*\S+(?:\s*\{[^}]*\})?)/g\<close>. \<open>braceGroupLen\<close> is the
  optional annotation (0 when it is skipped), \<open>moveTail\<close> is \<open>\s*\S+\<close> and the annotation,
  \<open>matchMoveAt\<close> one attempt at the head of a string. The only backtracking that can
  succeed is giving back the optional \<open>..\<close> when no move text follows it.
\<close>

definition braceGroupLen :: "string \<Rightarrow> nat" where
  "braceGroupLen r =
     (let ws = takeWhile isSpace r in
      case dropWhile isSpace r of
        [] \<Rightarrow> 0
      | c # r1 \<Rightarrow>
          if c = CHR ''{'' \<and> dropWhile (\<lambda>x. x \<noteq> CHR ''}'') r1 \<noteq> []
          then length ws + 1 + length (takeWhile (\<lambda>x. x \<noteq> CHR ''}'') r1) + 1
          else 0)"

definition moveTail :: "string \<Rightarrow> nat option" where
  "moveTail r =
     (let ws = takeWhile isSpace r;
          r1 = dropWhile isSpace r;
          w = takeWhile (\<lambda>c. \<not> isSpace c) r1
      in if w = [] then None
         else Some (length ws + length w + braceGroupLen (dropWhile (\<lambda>c. \<not> isSpace c) r1)))"

definition matchMoveAt :: "string \<Rightarrow> nat option" where
  "matchMoveAt s =
     (let d = takeWhile isDigit s in
      if d = [] then None
      else (case dropWhile isDigit s of
          [] \<Rightarrow> None
        | c # r1 \<Rightarrow>
            if c \<noteq> CHR ''.'' then None
            else (case (if startsWith r1 ''..'' then moveTail (drop 2 r1) else None) of
                Some n \<Rightarrow> Some (length d + 1 + 2 + n)
              | None \<Rightarrow> map_option (\<lambda>n. length d + 1 + n) (moveTail r1))))"

text \<open>The \<open>exec\<close> loop: every match in turn, each search starting where the last match
  ended; \<open>k\<close> counts the characters of the current match still to be passed.\<close>

fun execAll :: "nat \<Rightarrow> string \<Rightarrow> string list" where
  "execAll k [] = []"
| "execAll k (c # cs) =
     (if k > 0 then execAll (k - 1) cs
      else (case matchMoveAt (c # cs) of
          Some n \<Rightarrow> take n (c # cs) # execAll (n - 1) cs
        | None \<Rightarrow> execAll 0 cs))"

text \<open>\<open>moveText.match(/\{([^}]*)\}/)\<close>: the text before the first brace that is closed,
  the text between the braces, and the text after.\<close>

fun clockPattern :: "string \<Rightarrow> (string \<times> string \<times> string) option" where
  "clockPattern [] = None"
| "clockPattern (c # cs) =
     (if c = CHR ''{'' \<and> dropWhile (\<lambda>x. x \<noteq> CHR ''}'') cs \<noteq> []
      then Some ([], takeWhile (\<lambda>x. x \<noteq> CHR ''}'') cs, tl (dropWhile (\<lambda>x. x \<noteq> CHR ''}'') cs))
      else map_option (\<lambda>(before, inner, after). (c # before, inner, after)) (clockPattern cs))"

text \<open>\<open>cleanMove.replace(/^\d+\.\.?\.?\s*/, '')\<close>.\<close>

definition dropDot :: "string \<Rightarrow> string" where
  "dropDot s = (case s of [] \<Rightarrow> [] | c # cs \<Rightarrow> if c = CHR ''.'' then cs else s)"

definition stripMoveNumber :: "string \<Rightarrow> string" where
  "stripMoveNumber s =
     (if takeWhile isDigit s = [] then s
      else (case dropWhile isDigit s of
          [] \<Rightarrow> s
        | c # r \<Rightarrow> if c = CHR ''.'' then dropWhile isSpace (dropDot (dropDot r)) else s))"

text \<open>The local variables of the loop.\<close>

record pgn_state =
  formattedMoves :: "string list"
  clocks :: "ClockInfo list"
  currentMoveNumber :: nat
  isWhiteMove :: bool
  previousWhiteTime :: "string option"
  previousBlackTime :: "string option"

definition initial_state :: pgn_state where
  "initial_state =
     \<lparr>formattedMoves = [], clocks = [], currentMoveNumber = 1, isWhiteMove = True,
      previousWhiteTime = None, previousBlackTime = None\<rparr>"

text \<open>A remembered clock counts when it is set and not the empty string.\<close>

definition sinceClock :: "string \<Rightarrow> string option \<Rightarrow> string option" where
  "sinceClock clock previous =
     (case previous of
        None \<Rightarrow> None
      | Some p \<Rightarrow> if p = [] then None else chesscom_calculateTimeSpent clock p)"

text \<open>One turn of the loop body, lines 67 to 107.\<close>

definition plyStep :: "pgn_state \<Rightarrow> string \<Rightarrow> pgn_state" where
  "plyStep st token =
     (case clockPattern token of
        Some (before, clockComment, after) \<Rightarrow>
          (case parseClockComment clockComment of
             None \<Rightarrow> st
           | Some clock \<Rightarrow>
               if clock = [] then st
               else
                 (let cleanMove = trim (before @ after);
                      spent = (if isWhiteMove st then sinceClock clock (previousWhiteTime st)
                               else sinceClock clock (previousBlackTime st));
                      info = \<lparr>time = clock, moveText = stripMoveNumber cleanMove,
                              moveNumber = currentMoveNumber st, isWhite = isWhiteMove st,
                              timeSpent = spent\<rparr>
                  in st\<lparr>formattedMoves := formattedMoves st @ [cleanMove],
                        clocks := clocks st @ [info],
                        previousWhiteTime :=
                          (if isWhiteMove st then Some clock else previousWhiteTime st),
                        previousBlackTime :=
                          (if isWhiteMove st then previousBlackTime st else Some clock),
                        currentMoveNumber :=
                          (if isWhiteMove st then currentMoveNumber st
                           else currentMoveNumber st + 1),
                        isWhiteMove := \<not> isWhiteMove st\<rparr>))
      | None \<Rightarrow>
          st\<lparr>formattedMoves := formattedMoves st @ [token],
             currentMoveNumber :=
               (if isWhiteMove st then currentMoveNumber st else currentMoveNumber st + 1),
             isWhiteMove := \<not> isWhiteMove st\<rparr>)"

text \<open>\<open>parts.join(' ')\<close>.\<close>

fun joinSpace :: "string list \<Rightarrow> string" where
  "joinSpace [] = []"
| "joinSpace [x] = x"
| "joinSpace (x # y # ys) = x @ CHR '' '' # joinSpace (y # ys)"

definition tokenize :: "string \<Rightarrow> string list" where
  "tokenize pgn = execAll 0 (trim (removeHeaders 0 pgn))"

definition formatTokens :: "string list \<Rightarrow> string \<times> ClockInfo list" where
  "formatTokens tokens =
     (let st = foldl plyStep initial_state tokens in (joinSpace (formattedMoves st), clocks st))"

definition formatPGN :: "string \<Rightarrow> string \<times> ClockInfo list" where
  "formatPGN pgn = formatTokens (tokenize pgn)"

subsection \<open>parseTimeControl\<close>

definition parseTimeControl :: "string \<Rightarrow> string" where
  "parseTimeControl timeControl =
     (if timeControl = ''1/86400'' then ''1 day''
      else if timeControl = ''1/259200'' then ''3 days''
      else if timeControl = ''1/432000'' then ''5 days''
      else if timeControl = ''1/604800'' then ''7 days''
      else if timeControl = ''1/1209600'' then ''14 days''
      else
        (let parts = map Number (split (CHR ''+'') timeControl);
             baseTime = elem parts 0;
             increment = elem parts 1
         in case baseTime of
              NaN \<Rightarrow> ''-''
            | Num b \<Rightarrow>
                (let minutes = b div 60;
                     seconds = jsRem b 60;
                     timeStr =
                       (if minutes > 0
                        then showInt minutes @
                          (if seconds > 0 then CHR '':'' # padStart2 (showInt seconds) else [])
                        else showInt seconds @ ''s'')
                 in timeStr @ CHR ''+'' #
                      (case increment of NaN \<Rightarrow> ''0'' | Num i \<Rightarrow> showInt i))))"

subsection \<open>fetchChessComGames\<close>

text \<open>
  A thrown value is an instance of \<open>Error\<close> (with the name of its class and its message:
  \<open>Error\<close>, \<open>TypeError\<close> for a failed \<open>fetch\<close>, \<open>SyntaxError\<close> for malformed JSON,
  \<open>RangeError\<close> for an invalid date) or any other value. A rejected promise and a
  \<open>throw\<close> are the left injection of a sum.
\<close>

datatype thrown = ErrorObject string string | OtherValue string

definition noGamesFound :: thrown where
  "noGamesFound = ErrorObject ''Error'' ''No games found''"

text \<open>A response: its \<open>ok\<close> flag and what reading its body gives.\<close>

record 'a response =
  ok :: bool
  body :: "thrown + 'a"

record ChessComPlayer =
  username :: string
  rating :: int
  result :: string

record ChessComGame =
  url :: string
  pgn :: string
  end_time :: int
  time_control :: string
  time_class :: string
  rated :: bool
  rules :: "string option"
  white :: ChessComPlayer
  black :: ChessComPlayer
  initial_setup :: "string option"

datatype GameResult = Win | Loss | Draw

text \<open>The objects the adapter returns. \<open>n_date\<close> holds the time value in milliseconds
  that the ISO string \<open>date\<close> denotes.\<close>

record ChessComResult =
  n_id :: string
  n_date :: int
  n_whitePlayer :: string
  n_blackPlayer :: string
  n_result :: GameResult
  n_rating :: int
  n_gameType :: string
  n_timeControl :: string
  n_pgn :: string
  n_clocks :: "ClockInfo list"
  n_expanded :: bool

definition standardPosition :: string where
  "standardPosition = ''rnbqkbnr/pppppppp/8/8/8/8/PPPPPPPP/RNBQKBNR w KQkq - 0 1''"

text \<open>\<open>!s || s === v\<close> for an optional string.\<close>

definition absentOr :: "string option \<Rightarrow> string \<Rightarrow> bool" where
  "absentOr s v = (case s of None \<Rightarrow> True | Some x \<Rightarrow> x = [] \<or> x = v)"

text \<open>\<open>x <= endTimestamp\<close> and \<open>x >= endTimestamp\<close>, where no end date (\<open>None\<close>) stands
  for \<open>Infinity\<close>.\<close>

definition leEnd :: "jsnum \<Rightarrow> jsnum option \<Rightarrow> bool" where
  "leEnd x e = (case e of None \<Rightarrow> x \<noteq> NaN | Some y \<Rightarrow> jsLe x y)"

text \<open>The five filters of lines 216 to 241, in their order.\<close>

definition inDateRange :: "jsnum \<Rightarrow> jsnum option \<Rightarrow> ChessComGame \<Rightarrow> bool" where
  "inDateRange startTimestamp endTimestamp game =
     (if end_time game = 0 then False
      else jsGe (Num (end_time game)) startTimestamp \<and> leEnd (Num (end_time game)) endTimestamp)"

definition ofGameType :: "string \<Rightarrow> ChessComGame \<Rightarrow> bool" where
  "ofGameType gameType game =
     (if gameType = ''all'' then time_class game \<in> set [''blitz'', ''rapid'']
      else time_class game = gameType)"

definition standardRules :: "ChessComGame \<Rightarrow> bool" where
  "standardRules game = absentOr (rules game) ''chess''"

definition standardSetup :: "ChessComGame \<Rightarrow> bool" where
  "standardSetup game = absentOr (initial_setup game) standardPosition"

definition humanOpponent :: "string \<Rightarrow> ChessComGame \<Rightarrow> bool" where
  "humanOpponent user game =
     (let opponent =
            (if toLowerCase (username (white game)) = toLowerCase user
             then toLowerCase (username (black game))
             else toLowerCase (username (white game)))
      in \<not> includes_js opponent ''bot'' \<and> \<not> includes_js opponent ''computer'')"

definition chesscom_qualifying ::
  "string \<Rightarrow> jsnum \<Rightarrow> jsnum option \<Rightarrow> string \<Rightarrow> ChessComGame list \<Rightarrow> ChessComGame list" where
  "chesscom_qualifying user startTimestamp endTimestamp gameType allGames =
     filter (humanOpponent user)
       (filter standardSetup
         (filter standardRules
           (filter (ofGameType gameType)
             (filter (inDateRange startTimestamp endTimestamp) allGames))))"

text \<open>\<open>new Date(ms).toISOString()\<close> throws a \<open>RangeError\<close> outside the range of dates.\<close>

definition toISOString :: "int \<Rightarrow> thrown + int" where
  "toISOString ms =
     (if \<bar>ms\<bar> > 8640000000000000 then Inl (ErrorObject ''RangeError'' ''Invalid time value'')
      else Inr ms)"

text \<open>The callback of \<open>map\<close>, lines 242 to 268.\<close>

definition chesscom_normalize :: "string \<Rightarrow> ChessComGame \<Rightarrow> thrown + ChessComResult" where
  "chesscom_normalize user game =
     (let isWhitePlayer = (toLowerCase (username (white game)) = toLowerCase user);
          playerRating = (if isWhitePlayer then rating (white game) else rating (black game));
          res = (if result (white game) = ''win'' then (if isWhitePlayer then Win else Loss)
                 else if result (black game) = ''win'' then (if isWhitePlayer then Loss else Win)
                 else Draw);
          formatted = formatPGN (pgn game)
      in case toISOString (end_time game * 1000) of
           Inl e \<Rightarrow> Inl e
         | Inr d \<Rightarrow>
             Inr \<lparr>n_id = url game, n_date = d,
                  n_whitePlayer = username (white game), n_blackPlayer = username (black game),
                  n_result = res, n_rating = playerRating,
                  n_gameType = time_class game @ (if rated game then '' rated'' else '' casual''),
                  n_timeControl = parseTimeControl (time_control game),
                  n_pgn = fst formatted, n_clocks = snd formatted, n_expanded = False\<rparr>)"

text \<open>\<open>Array.prototype.map\<close> with a callback that may throw: the first throw ends it.\<close>

fun mapThrowing :: "('a \<Rightarrow> thrown + 'b) \<Rightarrow> 'a list \<Rightarrow> thrown + 'b list" where
  "mapThrowing f [] = Inr []"
| "mapThrowing f (x # xs) =
     (case f x of
        Inl e \<Rightarrow> Inl e
      | Inr y \<Rightarrow> (case mapThrowing f xs of Inl e \<Rightarrow> Inl e | Inr ys \<Rightarrow> Inr (y # ys)))"

text \<open>The archives that overlap the date window, lines 169 to 192. \<open>archiveSpan\<close> gives
  the time stamps of the first and the last day of the month an archive URL names, as
  \<open>Date\<close> computes them in the local time zone.\<close>

definition overlapsWindow :: "jsnum \<Rightarrow> jsnum option \<Rightarrow> jsnum \<times> jsnum \<Rightarrow> bool" where
  "overlapsWindow startTimestamp endTimestamp span =
     (let archiveStartTimestamp = fst span; archiveEndTimestamp = snd span in
      (leEnd archiveStartTimestamp endTimestamp \<and> jsGe archiveEndTimestamp startTimestamp) \<or>
      (jsGe archiveStartTimestamp startTimestamp \<and> leEnd archiveStartTimestamp endTimestamp) \<or>
      (jsGe archiveEndTimestamp startTimestamp \<and> leEnd archiveEndTimestamp endTimestamp))"

text \<open>The games of one archive, lines 197 to 211: a failed or malformed download is
  logged and skipped.\<close>

definition archiveGames :: "thrown + (ChessComGame list option) response \<Rightarrow> ChessComGame list" where
  "archiveGames fetched =
     (case fetched of
        Inl e \<Rightarrow> []
      | Inr gamesResponse \<Rightarrow>
          if \<not> ok gamesResponse then []
          else (case body gamesResponse of
              Inl e \<Rightarrow> []
            | Inr None \<Rightarrow> []
            | Inr (Some games) \<Rightarrow> games))"

definition relevantArchives ::
  "jsnum \<Rightarrow> jsnum option \<Rightarrow> (string \<Rightarrow> jsnum \<times> jsnum) \<Rightarrow> string list \<Rightarrow> string list" where
  "relevantArchives startTimestamp endTimestamp archiveSpan archives =
     rev (filter (\<lambda>archiveUrl. overlapsWindow startTimestamp endTimestamp (archiveSpan archiveUrl))
            archives)"

definition allGamesOf ::
  "(string \<Rightarrow> thrown + (ChessComGame list option) response) \<Rightarrow> string list \<Rightarrow> ChessComGame list" where
  "allGamesOf fetchGames urls = concat (map (\<lambda>archiveUrl. archiveGames (fetchGames archiveUrl)) urls)"

definition archivesUrl :: "string \<Rightarrow> string" where
  "archivesUrl user = ''https://api.chess.com/pub/player/'' @ user @ ''/games/archives''"

text \<open>
  The body of the \<open>try\<close> block. \<open>fetchArchives\<close> and \<open>fetchGames\<close> are \<open>fetch\<close> on the
  archive index and on one archive; a body of \<open>None\<close> is JSON without the expected array.
  \<open>startTimestamp\<close> and \<open>endTimestamp\<close> are the values of lines 154 and 155.
\<close>

definition chesscom_try ::
  "string \<Rightarrow> jsnum \<Rightarrow> jsnum option \<Rightarrow> string \<Rightarrow> (string \<Rightarrow> jsnum \<times> jsnum) \<Rightarrow>
   (string \<Rightarrow> thrown + (string list option) response) \<Rightarrow>
   (string \<Rightarrow> thrown + (ChessComGame list option) response) \<Rightarrow> thrown + ChessComResult list" where
  "chesscom_try user startTimestamp endTimestamp gameType archiveSpan fetchArchives fetchGames =
     (case fetchArchives (archivesUrl user) of
        Inl e \<Rightarrow> Inl e
      | Inr resp \<Rightarrow>
          if \<not> ok resp then Inl noGamesFound
          else (case body resp of
              Inl e \<Rightarrow> Inl e
            | Inr None \<Rightarrow> Inl noGamesFound
            | Inr (Some archives) \<Rightarrow>
                (let allGames =
                       allGamesOf fetchGames
                         (relevantArchives startTimestamp endTimestamp archiveSpan archives)
                 in case mapThrowing (chesscom_normalize user)
                           (chesscom_qualifying user startTimestamp endTimestamp gameType allGames) of
                      Inl e \<Rightarrow> Inl e
                    | Inr mapped \<Rightarrow>
                        (let filteredGames = sort_key (\<lambda>g. - n_date g) mapped in
                         if filteredGames = [] then Inl noGamesFound else Inr filteredGames))))"

text \<open>The \<open>catch\<close> block, the same in both adapters.\<close>

definition catchBlock :: "thrown + 'a \<Rightarrow> thrown + 'a" where
  "catchBlock outcome =
     (case outcome of
        Inl (ErrorObject name message) \<Rightarrow> Inl (ErrorObject name message)
      | Inl (OtherValue v) \<Rightarrow> Inl noGamesFound
      | Inr games \<Rightarrow> Inr games)"

text \<open>What the \<open>catch\<close> block throws when it has caught \<open>e\<close>.\<close>

definition rethrown :: "thrown \<Rightarrow> thrown" where
  "rethrown e = (case e of ErrorObject n m \<Rightarrow> ErrorObject n m | OtherValue v \<Rightarrow> noGamesFound)"

definition fetchChessComGames ::
  "string \<Rightarrow> jsnum \<Rightarrow> jsnum option \<Rightarrow> string \<Rightarrow> (string \<Rightarrow> jsnum \<times> jsnum) \<Rightarrow>
   (string \<Rightarrow> thrown + (string list option) response) \<Rightarrow>
   (string \<Rightarrow> thrown + (ChessComGame list option) response) \<Rightarrow> thrown + ChessComResult list" where
  "fetchChessComGames user startTimestamp endTimestamp gameType archiveSpan fetchArchives fetchGames =
     catchBlock
       (chesscom_try user startTimestamp endTimestamp gameType archiveSpan fetchArchives fetchGames)"

section \<open>Service B: the clock-array adapter (lichess.ts)\<close>

text \<open>\<open>formatClockTime\<close>: \<open>Math.floor(centiseconds / 100)\<close>, then the whole minutes and the
  remainder \<open>%\<close>, which takes the sign of the dividend. A reading is a whole number here; the
  two divisions of the code are those of this definition for readings of a magnitude below
  \<open>exactLimit\<close>, and the properties that depend on the value of a reading are stated for
  such readings (\<open>exact\<close>). A reading that is no whole number, or not finite, is not
  represented.\<close>

definition formatClockTime :: "int \<Rightarrow> string" where
  "formatClockTime centiseconds =
     (let totalSeconds = centiseconds div 100;
          minutes = totalSeconds div 60;
          seconds = jsRem totalSeconds 60
      in showInt minutes @ CHR '':'' # padStart2 (showInt seconds))"

definition lichess_calculateTimeSpent ::
  "string option \<Rightarrow> string option \<Rightarrow> int \<Rightarrow> string option" where
  "lichess_calculateTimeSpent currentClock previousClock increment =
     (case (currentClock, previousClock) of
        (Some c, Some p) \<Rightarrow>
          if c = [] \<or> p = [] then None
          else
            (let cur = map Number (split (CHR '':'') c);
                 prev = map Number (split (CHR '':'') p);
                 currentTotal = jsAdd (jsMul (elem cur 0) (Num 60)) (elem cur 1);
                 previousTotal = jsAdd (jsMul (elem prev 0) (Num 60)) (elem prev 1);
                 spent = jsAdd (jsSub previousTotal currentTotal) (Num increment)
             in if jsLe spent (Num 0) then None else Some (jsToString spent @ ''s''))
      | _ \<Rightarrow> None)"

record LichessClock =
  initial :: int
  increment :: int

record LichessPlayer =
  name :: string
  l_rating :: int
  aiLevel :: "int option"

datatype Side = White | Black

record LichessGame =
  l_id :: string
  createdAt :: int
  l_moves :: string
  l_clocks :: "int list option"
  l_clock :: "LichessClock option"
  l_white :: LichessPlayer
  l_black :: LichessPlayer
  winner :: "Side option"
  speed :: string
  l_rated :: bool
  initialFen :: "string option"

record LichessMove =
  move :: string
  l_moveNumber :: nat
  clockWhite :: "string option"
  clockBlack :: "string option"
  timeSpentWhite :: "string option"
  timeSpentBlack :: "string option"

text \<open>The returned objects. \<open>r_timeControl\<close> keeps the clock whose label is
  \<open>initial/60 + increment\<close> (\<open>None\<close> for the label \<open>-\<close>): the quotient is a double, and
  its rendering is not modelled.\<close>

record LichessResult =
  r_id :: string
  r_date :: int
  r_whitePlayer :: string
  r_blackPlayer :: string
  r_result :: GameResult
  r_rating :: int
  r_gameType :: string
  r_timeControl :: "LichessClock option"
  r_moves :: "LichessMove list"
  r_expanded :: bool

text \<open>The local variables of the loop over the plies, lines 129 to 164.\<close>

record move_state =
  moves :: "LichessMove list"
  previousWhiteClock :: "string option"
  previousBlackClock :: "string option"

text \<open>The clock of ply \<open>i\<close>: the array is read only below its length.\<close>

definition clockAt :: "int list option \<Rightarrow> nat \<Rightarrow> string option" where
  "clockAt gameClocks i =
     (case gameClocks of
        None \<Rightarrow> None
      | Some cs \<Rightarrow> if i < length cs then Some (formatClockTime (cs ! i)) else None)"

definition moveStep :: "int list option \<Rightarrow> int \<Rightarrow> move_state \<Rightarrow> nat \<times> string \<Rightarrow> move_state" where
  "moveStep gameClocks inc st im =
     (let i = fst im; mv = snd im in
      if trim mv = [] then st
      else
        (let isWhiteMv = (i mod 2 = 0);
             currentClock = clockAt gameClocks i;
             moveObj =
               (if isWhiteMv
                then \<lparr>move = mv, l_moveNumber = i div 2 + 1,
                      clockWhite = currentClock, clockBlack = None,
                      timeSpentWhite =
                        lichess_calculateTimeSpent currentClock (previousWhiteClock st) inc,
                      timeSpentBlack = None\<rparr>
                else \<lparr>move = mv, l_moveNumber = i div 2 + 1,
                      clockWhite = None, clockBlack = currentClock,
                      timeSpentWhite = None,
                      timeSpentBlack =
                        lichess_calculateTimeSpent currentClock (previousBlackClock st) inc\<rparr>)
         in \<lparr>moves = moves st @ [moveObj],
             previousWhiteClock = (if isWhiteMv then currentClock else previousWhiteClock st),
             previousBlackClock = (if isWhiteMv then previousBlackClock st else currentClock)\<rparr>))"

definition lichess_moves :: "LichessGame \<Rightarrow> LichessMove list" where
  "lichess_moves game =
     (let movesArray = split (CHR '' '') (l_moves game);
          inc = (case l_clock game of None \<Rightarrow> 0 | Some c \<Rightarrow> increment c)
      in moves (foldl (moveStep (l_clocks game) inc)
                  \<lparr>moves = [], previousWhiteClock = None, previousBlackClock = None\<rparr>
                  (enumerate 0 movesArray)))"

text \<open>The two filters, lines 108 to 127.\<close>

definition l_standardSetup :: "LichessGame \<Rightarrow> bool" where
  "l_standardSetup game = absentOr (initialFen game) standardPosition"

definition l_humanOpponent :: "string \<Rightarrow> LichessGame \<Rightarrow> bool" where
  "l_humanOpponent user game =
     (if aiLevel (l_white game) \<noteq> None \<or> aiLevel (l_black game) \<noteq> None then False
      else
        (let opponent =
               (if toLowerCase (name (l_white game)) = toLowerCase user
                then toLowerCase (name (l_black game))
                else toLowerCase (name (l_white game)))
         in \<not> (includes_js opponent ''bot'' \<or> includes_js opponent ''stockfish'' \<or>
                includes_js opponent ''engine'')))"

definition lichess_qualifying :: "string \<Rightarrow> LichessGame list \<Rightarrow> LichessGame list" where
  "lichess_qualifying user games = filter (l_humanOpponent user) (filter l_standardSetup games)"

text \<open>The callback of \<open>map\<close>, lines 128 to 180.\<close>

definition lichess_normalize :: "LichessGame \<Rightarrow> thrown + LichessResult" where
  "lichess_normalize game =
     (case toISOString (createdAt game) of
        Inl e \<Rightarrow> Inl e
      | Inr d \<Rightarrow>
          Inr \<lparr>r_id = l_id game, r_date = d,
               r_whitePlayer = name (l_white game), r_blackPlayer = name (l_black game),
               r_result = (case winner game of
                             Some w \<Rightarrow> (if w = White then Win else Loss)
                           | None \<Rightarrow> Draw),
               r_rating = l_rating (l_white game),
               r_gameType = speed game @ (if l_rated game then '' rated'' else '' casual''),
               r_timeControl = l_clock game,
               r_moves = lichess_moves game, r_expanded = False\<rparr>)"

text \<open>The request of lines 78 to 94.\<close>

definition perfTypes :: "string \<Rightarrow> string" where
  "perfTypes gameType =
     (if gameType = ''all'' then ''&perfType=blitz,rapid,classical''
      else if gameType = ''blitz'' then ''&perfType=blitz''
      else if gameType = ''rapid'' then ''&perfType=rapid''
      else if gameType = ''classical'' then ''&perfType=classical''
      else [])"

definition lichess_url :: "string \<Rightarrow> string \<Rightarrow> jsnum \<Rightarrow> jsnum \<Rightarrow> string" where
  "lichess_url user gameType startTimestamp endTimestamp =
     ''https://lichess.org/api/games/user/'' @ user @ ''?tags=true&clocks=true'' @
     perfTypes gameType @
     ''&since='' @ jsToString startTimestamp @ ''&until='' @ jsToString endTimestamp"

text \<open>
  The body of the \<open>try\<close> block. \<open>fetch\<close> is the request (its body is \<open>response.text()\<close>),
  \<open>JSON_parse\<close> is \<open>JSON.parse\<close> of one line read as a game; \<open>startTimestamp\<close> and
  \<open>endTimestamp\<close> are the values of lines 74 and 75.
\<close>

definition lichess_try ::
  "string \<Rightarrow> string \<Rightarrow> jsnum \<Rightarrow> jsnum \<Rightarrow> (string \<Rightarrow> thrown + string response) \<Rightarrow>
   (string \<Rightarrow> thrown + LichessGame) \<Rightarrow> thrown + LichessResult list" where
  "lichess_try user gameType startTimestamp endTimestamp fetch JSON_parse =
     (case fetch (lichess_url user gameType startTimestamp endTimestamp) of
        Inl e \<Rightarrow> Inl e
      | Inr resp \<Rightarrow>
          if \<not> ok resp then Inl noGamesFound
          else (case body resp of
              Inl e \<Rightarrow> Inl e
            | Inr txt \<Rightarrow>
                if trim txt = [] then Inl noGamesFound
                else (case mapThrowing JSON_parse (split (CHR 0x0A) (trim txt)) of
                    Inl e \<Rightarrow> Inl e
                  | Inr games \<Rightarrow>
                      (case mapThrowing lichess_normalize (lichess_qualifying user games) of
                         Inl e \<Rightarrow> Inl e
                       | Inr mapped \<Rightarrow>
                           (let filteredGames = sort_key (\<lambda>g. - r_date g) mapped in
                            if filteredGames = [] then Inl noGamesFound
                            else Inr filteredGames)))))"

definition fetchLichessGames ::
  "string \<Rightarrow> string \<Rightarrow> jsnum \<Rightarrow> jsnum \<Rightarrow> (string \<Rightarrow> thrown + string response) \<Rightarrow>
   (string \<Rightarrow> thrown + LichessGame) \<Rightarrow> thrown + LichessResult list" where
  "fetchLichessGames user gameType startTimestamp endTimestamp fetch JSON_parse =
     catchBlock (lichess_try user gameType startTimestamp endTimestamp fetch JSON_parse)"

section \<open>Definitions used to state the properties\<close>

text \<open>The five day-based codes of service A.\<close>

definition dayCodes :: "string list" where
  "dayCodes = [''1/86400'', ''1/259200'', ''1/432000'', ''1/604800'', ''1/1209600'']"

text \<open>The label of a base time of \<open>base\<close> seconds as section 4.3 of the spec words it:
  whole minutes, with \<open>:SS\<close> padded to two digits only when the remainder is not zero,
  from 60 seconds on; \<open>Ns\<close> below.\<close>

definition spec_baseLabel :: "nat \<Rightarrow> string" where
  "spec_baseLabel base =
     (if base \<ge> 60
      then showNat (base div 60) @
           (if base mod 60 \<noteq> 0 then '':'' @ padStart2 (showNat (base mod 60)) else [])
      else showNat base @ ''s'')"


definition clockSeconds :: "int \<Rightarrow> int" where
  "clockSeconds centiseconds = (centiseconds div 100 div 60) * 60 + jsRem (centiseconds div 100) 60"

text \<open>What the spec says of ply \<open>i\<close> of service B: its move text, the full-move number
  \<open>i div 2 + 1\<close>, and its clock on the side that the parity of \<open>i\<close> gives.\<close>

definition spec_plyFacts :: "int list option \<Rightarrow> nat \<times> string \<Rightarrow> string \<times> nat \<times> string option \<times> string option" where
  "spec_plyFacts gameClocks im =
     (snd im, fst im div 2 + 1,
      if even (fst im) then clockAt gameClocks (fst im) else None,
      if even (fst im) then None else clockAt gameClocks (fst im))"

definition plyFacts :: "LichessMove \<Rightarrow> string \<times> nat \<times> string option \<times> string option" where
  "plyFacts mv = (move mv, l_moveNumber mv, clockWhite mv, clockBlack mv)"

definition nonBlank :: "nat \<times> string \<Rightarrow> bool" where
  "nonBlank im = (trim (snd im) \<noteq> [])"















section \<open>Invariants of the two loops\<close>





definition noClockNoSpent :: "LichessMove \<Rightarrow> bool" where
  "noClockNoSpent mv =
     ((clockWhite mv = None \<longrightarrow> timeSpentWhite mv = None) \<and>
      (clockBlack mv = None \<longrightarrow> timeSpentBlack mv = None))"

text \<open>A ply token that \<open>formatPGN\<close> can use: it has no annotation, or its annotation holds
  a clock that parses.\<close>

definition usable :: "string \<Rightarrow> bool" where
  "usable tok =
     (case clockPattern tok of
        None \<Rightarrow> True
      | Some (before, c, after) \<Rightarrow> parseClockComment c \<noteq> None)"









section \<open>Games and servers used in the examples\<close>

text \<open>A game of service B that white won, alice (1500) against bob (1400). Its move list
  has a doubled space, and its clock array ends before the move list does.\<close>

definition exampleGame :: LichessGame where
  "exampleGame =
     \<lparr>l_id = ''g1'', createdAt = 1700000000000, l_moves = ''e4 e5 Nf3  Nc6'',
      l_clocks = Some [60000, 60000, 58000],
      l_clock = Some \<lparr>initial = 600, increment = 2\<rparr>,
      l_white = \<lparr>name = ''alice'', l_rating = 1500, aiLevel = None\<rparr>,
      l_black = \<lparr>name = ''bob'', l_rating = 1400, aiLevel = None\<rparr>,
      winner = Some White, speed = ''rapid'', l_rated = True, initialFen = None\<rparr>"

text \<open>A game of service A with four clocked plies, the same game as a variant, and a
  game of service B against a bot account.\<close>

definition examplePgn :: string where
  "examplePgn = ''1. e4 {[%clk 0:10:00]} 1... e5 {[%clk 0:09:00]} 2. Nf3 {[%clk 0:09:50]} 2... Nc6 {[%clk 0:09:50]}''"

definition examplePlayed :: ChessComGame where
  "examplePlayed =
     \<lparr>url = ''https://www.chess.com/game/live/1'', pgn = examplePgn, end_time = 1704800000,
      time_control = ''600'', time_class = ''rapid'', rated = True, rules = Some ''chess'',
      white = \<lparr>username = ''Alice'', rating = 1500, result = ''win''\<rparr>,
      black = \<lparr>username = ''Bob'', rating = 1400, result = ''resigned''\<rparr>,
      initial_setup = None\<rparr>"

definition exampleVariant :: ChessComGame where
  "exampleVariant = examplePlayed\<lparr>rules := Some ''chess960''\<rparr>"

definition exampleBotGame :: LichessGame where
  "exampleBotGame = exampleGame\<lparr>l_black := \<lparr>name = ''SuperBot2000'', l_rating = 2000, aiLevel = None\<rparr>\<rparr>"

text \<open>A move list whose second ply carries an annotation without a clock.\<close>

definition skippedPlyPgn :: string where
  "skippedPlyPgn = ''1. e4 {[%clk 0:09:58]} 1... e5 {[%eval 0.2]} 2. Nf3 {[%clk 0:09:50]}''"

text \<open>Servers for the examples: an archive index with one archive, the span of
  January 2024, a server that answers every request with the same content, a network
  that is down (\<open>fetch\<close> rejects with a \<open>TypeError\<close>), and a line that is not JSON
  (\<open>JSON.parse\<close> throws a \<open>SyntaxError\<close>).\<close>

definition oneArchive :: "string \<Rightarrow> thrown + (string list option) response" where
  "oneArchive archivesAddress =
     Inr \<lparr>ok = True, body = Inr (Some [''https://api.chess.com/pub/player/alice/games/2024/01''])\<rparr>"

definition january :: "string \<Rightarrow> jsnum \<times> jsnum" where
  "january archiveUrl = (Num 1704067200, Num 1706659200)"

definition serving :: "'a \<Rightarrow> string \<Rightarrow> thrown + 'a response" where
  "serving content address = Inr \<lparr>ok = True, body = Inr content\<rparr>"

definition networkDown :: "string \<Rightarrow> thrown + 'a response" where
  "networkDown address = Inl (ErrorObject ''TypeError'' ''Failed to fetch'')"

definition malformedLine :: "string \<Rightarrow> thrown + LichessGame" where
  "malformedLine line = Inl (ErrorObject ''SyntaxError'' ''Unexpected end of JSON input'')"

section \<open>Properties\<close>

subsection \<open>Digits, numbers and white space\<close>

lemma digit_cases:
  assumes "d < (10::nat)"
  shows "d = 0 \<or> d = 1 \<or> d = 2 \<or> d = 3 \<or> d = 4 \<or> d = 5 \<or> d = 6 \<or> d = 7 \<or> d = 8 \<or> d = 9"
  using assms by arith

lemma digitChar_isDigit: "d < 10 \<Longrightarrow> isDigit (digitChar d)"
  using digit_cases [of d] by (auto simp: digitChar_def isDigit_def)

lemma digitVal_digitChar: "d < 10 \<Longrightarrow> digitVal (digitChar d) = d"
  using digit_cases [of d] by (auto simp: digitChar_def digitVal_def isDigit_def)

lemma showNat_digits: "list_all isDigit (showNat n)"
proof (induction n rule: showNat.induct)
  case (1 n)
  show ?case
  proof (cases "n < 10")
    case True
    then show ?thesis by (subst showNat.simps) (simp add: digitChar_isDigit)
  next
    case False
    then have "list_all isDigit (showNat (n div 10))" using 1 by simp
    moreover have "isDigit (digitChar (n mod 10))" by (simp add: digitChar_isDigit)
    ultimately show ?thesis using False by (subst showNat.simps) simp
  qed
qed

lemma showNat_nonempty: "showNat n \<noteq> []"
  by (subst showNat.simps) simp

lemma digitsVal_snoc: "digitsVal (xs @ [c]) = 10 * digitsVal xs + digitVal c"
  by (simp add: digitsVal_def)

lemma digitsVal_showNat: "digitsVal (showNat n) = n"
proof (induction n rule: showNat.induct)
  case (1 n)
  show ?case
  proof (cases "n < 10")
    case True
    then show ?thesis by (subst showNat.simps) (simp add: digitsVal_def digitVal_digitChar)
  next
    case False
    then have "digitsVal (showNat (n div 10)) = n div 10" using 1 by simp
    then show ?thesis using False
      by (subst showNat.simps) (simp add: digitsVal_snoc digitVal_digitChar)
  qed
qed

lemma isDigit_not_space: "isDigit c \<Longrightarrow> \<not> isSpace c"
  by (auto simp: isDigit_def isSpace_def)

lemma dropWhile_id: "s = [] \<or> \<not> P (hd s) \<Longrightarrow> dropWhile P s = s"
  by (cases s) auto

lemma trim_id:
  assumes "s = [] \<or> (\<not> isSpace (hd s) \<and> \<not> isSpace (last s))"
  shows "trim s = s"
proof (cases "s = []")
  case True
  then show ?thesis by (simp add: trim_def)
next
  case False
  with assms have h: "\<not> isSpace (hd s)" and l: "\<not> isSpace (last s)" by auto
  have "dropWhile isSpace s = s" using h False by (simp add: dropWhile_id)
  moreover have "dropWhile isSpace (rev s) = rev s"
    using l False by (intro dropWhile_id) (simp add: hd_rev)
  ultimately show ?thesis by (simp add: trim_def)
qed

lemma trim_digits: "list_all isDigit s \<Longrightarrow> trim s = s"
proof (rule trim_id)
  assume a: "list_all isDigit s"
  show "s = [] \<or> (\<not> isSpace (hd s) \<and> \<not> isSpace (last s))"
  proof (cases "s = []")
    case False
    then have "hd s \<in> set s" "last s \<in> set s" by simp_all
    with a have "isDigit (hd s)" "isDigit (last s)" by (simp_all add: list_all_iff)
    then show ?thesis by (simp add: isDigit_not_space)
  qed simp
qed

lemma Number_digits: "s \<noteq> [] \<Longrightarrow> list_all isDigit s \<Longrightarrow> Number s = Num (int (digitsVal s))"
  by (simp add: Number_def trim_digits)

lemma Number_showNat: "Number (showNat n) = Num (int n)"
  by (simp add: Number_digits showNat_nonempty showNat_digits digitsVal_showNat)

lemma dropWhile_keeps: "c \<in> set s \<Longrightarrow> \<not> P c \<Longrightarrow> c \<in> set (dropWhile P s)"
  by (induction s) auto

lemma trim_keeps: "c \<in> set s \<Longrightarrow> \<not> isSpace c \<Longrightarrow> c \<in> set (trim s)"
proof -
  assume a: "c \<in> set s" "\<not> isSpace c"
  then have "c \<in> set (dropWhile isSpace s)" by (rule dropWhile_keeps)
  then have "c \<in> set (rev (dropWhile isSpace s))" by simp
  then have "c \<in> set (dropWhile isSpace (rev (dropWhile isSpace s)))"
    using a(2) by (rule dropWhile_keeps)
  then show ?thesis by (simp add: trim_def)
qed

lemma numeralChars_digit: "isDigit c \<Longrightarrow> c \<in> set numeralChars"
  by (auto simp: isDigit_def numeralChars_def)

lemma notNumeric_NaN:
  assumes "notNumeric s"
  shows "Number s = NaN"
proof -
  from assms obtain c where c: "c \<in> set s" "\<not> isSpace c" "c \<notin> set numeralChars"
    by (auto simp: notNumeric_def list_ex_iff)
  define t where "t = trim s"
  have ct: "c \<in> set t" using c(1,2) by (simp add: t_def trim_keeps)
  have nd: "\<not> isDigit c" using c(3) numeralChars_digit by blast
  have ns: "c \<noteq> CHR ''-''" "c \<noteq> CHR ''+''" using c(3) by (auto simp: numeralChars_def)
  have 1: "t \<noteq> []" using ct by auto
  have 2: "\<not> list_all isDigit t" using ct nd by (auto simp: list_all_iff)
  have 3: "hd t = CHR ''-'' \<or> hd t = CHR ''+'' \<Longrightarrow> \<not> list_all isDigit (tl t)"
  proof -
    assume "hd t = CHR ''-'' \<or> hd t = CHR ''+''"
    then have "c \<noteq> hd t" using ns by auto
    then have "c \<in> set (tl t)" using ct 1 by (cases t) auto
    then show ?thesis using nd by (auto simp: list_all_iff)
  qed
  show ?thesis
    using 1 2 3 by (auto simp: Number_def t_def [symmetric] Let_def)
qed

subsection \<open>Clock annotations\<close>

lemma takeWhile_run:
  "list_all P d \<Longrightarrow> \<not> P c \<Longrightarrow> takeWhile P (d @ c # r) = d"
  by (induction d) auto

lemma dropWhile_run:
  "list_all P d \<Longrightarrow> \<not> P c \<Longrightarrow> dropWhile P (d @ c # r) = c # r"
  by (induction d) auto

lemma takeWhile_all: "list_all P d \<Longrightarrow> takeWhile P d = d"
  by (induction d) auto

lemma colon_not_digit: "\<not> isDigit (CHR '':'')" "\<not> isDigit (CHR ''.'')" "\<not> isDigit (CHR '']'')"
  "\<not> isDigit (CHR ''+'')" "\<not> isDigit (CHR ''-'')" "\<not> isDigit (CHR ''/'')" "\<not> isDigit (CHR ''s'')"
  by (simp_all add: isDigit_def)

lemma clkField_run:
  "d \<noteq> [] \<Longrightarrow> list_all isDigit d \<Longrightarrow> clkField (d @ CHR '':'' # r) = Some (d, r)"
  by (simp add: clkField_def takeWhile_run dropWhile_run colon_not_digit)

lemma clkSeconds_plain:
  "s \<noteq> [] \<Longrightarrow> list_all isDigit s \<Longrightarrow> clkSeconds (s @ CHR '']'' # r) = Some s"
  by (simp add: clkSeconds_def takeWhile_run dropWhile_run colon_not_digit)

lemma clkSeconds_fraction:
  "s \<noteq> [] \<Longrightarrow> list_all isDigit s \<Longrightarrow> f \<noteq> [] \<Longrightarrow> list_all isDigit f \<Longrightarrow>
   clkSeconds (s @ CHR ''.'' # f @ CHR '']'' # r) = Some (s @ CHR ''.'' # f)"
  by (simp add: clkSeconds_def takeWhile_run dropWhile_run colon_not_digit)

lemma floorParseFloat_plain: "list_all isDigit s \<Longrightarrow> floorParseFloat s = digitsVal s"
  by (simp add: floorParseFloat_def takeWhile_all)

lemma floorParseFloat_fraction:
  "list_all isDigit s \<Longrightarrow> floorParseFloat (s @ CHR ''.'' # f) = digitsVal s"
  by (simp add: floorParseFloat_def takeWhile_run colon_not_digit)

lemma matchClkAt_annotation:
  assumes "ws \<noteq> []" "list_all isSpace ws"
    and "h \<noteq> []" "list_all isDigit h" "m \<noteq> []" "list_all isDigit m"
    and "clkSeconds r = Some sec"
  shows "matchClkAt (''[%clk'' @ ws @ h @ CHR '':'' # m @ CHR '':'' # r) = Some (h, m, sec)"
proof -
  have nd: "\<not> isSpace (hd (h @ CHR '':'' # m @ CHR '':'' # r))"
    using assms(3,4) by (cases h) (auto simp: isDigit_not_space)
  obtain c t where ct: "h @ CHR '':'' # m @ CHR '':'' # r = c # t" "\<not> isSpace c"
    using nd by (cases "h @ CHR '':'' # m @ CHR '':'' # r") auto
  have tw: "takeWhile isSpace (ws @ h @ CHR '':'' # m @ CHR '':'' # r) = ws"
    using takeWhile_run [OF assms(2) ct(2)] ct(1) by simp
  have dw: "dropWhile isSpace (ws @ h @ CHR '':'' # m @ CHR '':'' # r) = h @ CHR '':'' # m @ CHR '':'' # r"
    using dropWhile_run [OF assms(2) ct(2)] ct(1) by simp
  show ?thesis
    using assms by (simp add: matchClkAt_def tw dw clkField_run)
qed

lemma parseClockComment_annotation:
  assumes "ws \<noteq> []" "list_all isSpace ws"
    and "h \<noteq> []" "list_all isDigit h" "m \<noteq> []" "list_all isDigit m"
    and "clkSeconds r = Some sec"
  shows "parseClockComment (''[%clk'' @ ws @ h @ CHR '':'' # m @ CHR '':'' # r) =
         Some (h @ '':'' @ m @ '':'' @ showNat (floorParseFloat sec))"
proof -
  have "matchClkAt (''[%clk'' @ ws @ h @ CHR '':'' # m @ CHR '':'' # r) = Some (h, m, sec)"
    using assms by (rule matchClkAt_annotation)
  then have "searchClk (''[%clk'' @ ws @ h @ CHR '':'' # m @ CHR '':'' # r) = Some (h, m, sec)"
    by simp
  then show ?thesis by (simp add: parseClockComment_def)
qed

text \<open>
  Claim C5, as the code has it. For a clock annotation \<open>[%clk H:MM:SS]\<close> or
  \<open>[%clk H:MM:SS.frac]\<close> with seconds below 1000 and a fraction of at most 13 digits
  (where a double reads the decimal without reaching the next whole number),
  \<open>parseClockComment\<close> returns the hours and the minutes exactly as they are written
  (leading zeros included) and the seconds as the whole number before the point,
  rendered without leading zeros: the fraction is dropped, never rounded.
\<close>

theorem parseClockComment_keeps_fields:
  assumes "ws \<noteq> []" "list_all isSpace ws"
    and "h \<noteq> []" "list_all isDigit h" "m \<noteq> []" "list_all isDigit m"
    and "s \<noteq> []" "list_all isDigit s" "f \<noteq> []" "list_all isDigit f"
    and "digitsVal s < 1000" "length f \<le> 13"
  shows "parseClockComment (''[%clk'' @ ws @ h @ '':'' @ m @ '':'' @ s @ ''.'' @ f @ '']'') =
           Some (h @ '':'' @ m @ '':'' @ showNat (digitsVal s)) \<and>
         parseClockComment (''[%clk'' @ ws @ h @ '':'' @ m @ '':'' @ s @ '']'') =
           Some (h @ '':'' @ m @ '':'' @ showNat (digitsVal s))"
proof
  have "clkSeconds (s @ CHR ''.'' # f @ CHR '']'' # []) = Some (s @ CHR ''.'' # f)"
    using assms(7-10) by (intro clkSeconds_fraction)
  from parseClockComment_annotation [OF assms(1-6) this]
  show "parseClockComment (''[%clk'' @ ws @ h @ '':'' @ m @ '':'' @ s @ ''.'' @ f @ '']'') =
           Some (h @ '':'' @ m @ '':'' @ showNat (digitsVal s))"
    using assms(8) by (simp add: floorParseFloat_fraction)
next
  have "clkSeconds (s @ CHR '']'' # []) = Some s"
    using assms(7,8) by (intro clkSeconds_plain)
  from parseClockComment_annotation [OF assms(1-6) this]
  show "parseClockComment (''[%clk'' @ ws @ h @ '':'' @ m @ '':'' @ s @ '']'') =
           Some (h @ '':'' @ m @ '':'' @ showNat (digitsVal s))"
    using assms(8) by (simp add: floorParseFloat_plain)
qed

theorem parseClockComment_keeps_fields_witness:
  "parseClockComment ''[%clk 0:05:12.9]'' = Some ''0:05:12'' \<and>
   parseClockComment ''[%clk 0:05:12]'' = Some ''0:05:12''"
  using parseClockComment_keeps_fields [of "'' ''" "''0''" "''05''" "''12''" "''9''"]
  by (simp add: isSpace_def isDigit_def digitsVal_def digitVal_def showNat.simps digitChar_def)

text \<open>
  The example of claim C5 as the spec words it: the annotation for \<open>0:05:12.9\<close> gives
  \<open>0:05:12\<close>, with the minutes still \<open>05\<close>, and not \<open>0:5:12\<close>; the bare clock text
  without \<open>[%clk ...]\<close> is not recognised at all.
\<close>

theorem parseClockComment_example_counterexample:
  "parseClockComment ''[%clk 0:05:12.9]'' = Some ''0:05:12'' \<and>
   parseClockComment ''[%clk 0:05:12.9]'' \<noteq> Some ''0:5:12'' \<and>
   parseClockComment ''0:05:12.9'' = None"
  by (simp add: parseClockComment_def matchClkAt_def clkField_def clkSeconds_def isDigit_def
      isSpace_def floorParseFloat_def digitsVal_def digitVal_def digitChar_def showNat.simps)

subsection \<open>The time-control formatter\<close>

lemma split_no_sep: "sep \<notin> set s \<Longrightarrow> split sep s = [s]"
  by (induction s) auto

lemma split_run: "sep \<notin> set a \<Longrightarrow> split sep (a @ sep # b) = a # split sep b"
  by (induction a) auto

lemma digits_no_char: "list_all isDigit s \<Longrightarrow> \<not> isDigit c \<Longrightarrow> c \<notin> set s"
  by (auto simp: list_all_iff)

lemma showInt_nat: "showInt (int n) = showNat n"
  by (simp add: showInt_def)

lemma jsRem_nat: "jsRem (int n) 60 = int (n mod 60)"
  by (simp add: jsRem_def zmod_int)

lemma baseLabel_code:
  "(if int n div 60 > 0
    then showInt (int n div 60) @
      (if jsRem (int n) 60 > 0 then CHR '':'' # padStart2 (showInt (jsRem (int n) 60)) else [])
    else showInt (jsRem (int n) 60) @ ''s'') = spec_baseLabel n"
proof -
  have d: "int n div 60 = int (n div 60)" by (simp add: zdiv_int)
  show ?thesis
  proof (cases "n \<ge> 60")
    case True
    then have "n div 60 > 0" by (simp add: div_greater_zero_iff)
    then show ?thesis using True
      by (simp add: d jsRem_nat showInt_nat spec_baseLabel_def del: of_nat_div)
  next
    case False
    then have "n div 60 = 0" "n mod 60 = n" by simp_all
    then show ?thesis using False
      by (simp add: d jsRem_nat showInt_nat spec_baseLabel_def del: of_nat_div)
  qed
qed

lemma parseTimeControl_other:
  assumes "tc \<notin> set dayCodes"
  shows "parseTimeControl tc =
     (let parts = map Number (split (CHR ''+'') tc) in
      case elem parts 0 of
        NaN \<Rightarrow> ''-''
      | Num b \<Rightarrow>
          (if b div 60 > 0
           then showInt (b div 60) @
             (if jsRem b 60 > 0 then CHR '':'' # padStart2 (showInt (jsRem b 60)) else [])
           else showInt (jsRem b 60) @ ''s'') @ CHR ''+'' #
          (case elem parts 1 of NaN \<Rightarrow> ''0'' | Num i \<Rightarrow> showInt i))"
  using assms by (simp add: parseTimeControl_def dayCodes_def Let_def split: jsnum.split)

lemma has_slash: "s \<in> set dayCodes \<Longrightarrow> CHR ''/'' \<in> set s"
  by (auto simp: dayCodes_def)

lemma no_plus: "s \<in> set dayCodes \<Longrightarrow> CHR ''+'' \<notin> set s"
  by (auto simp: dayCodes_def)

lemma digits_not_dayCode: "list_all isDigit b \<Longrightarrow> b \<notin> set dayCodes"
  using has_slash [of b] digits_no_char [of b "CHR ''/''"] by (auto simp: isDigit_def)

lemma plus_not_dayCode: "b @ CHR ''+'' # i \<notin> set dayCodes"
  using no_plus [of "b @ CHR ''+'' # i"] by auto

lemma parseTimeControl_base:
  assumes "b \<noteq> []" "list_all isDigit b"
  shows "parseTimeControl b = spec_baseLabel (digitsVal b) @ ''+0''"
proof -
  have "split (CHR ''+'') b = [b]"
    using assms(2) by (intro split_no_sep digits_no_char) (simp_all add: isDigit_def)
  then show ?thesis
    using assms
    by (simp add: parseTimeControl_other digits_not_dayCode Number_digits elem_def baseLabel_code)
qed

lemma parseTimeControl_increment:
  assumes "b \<noteq> []" "list_all isDigit b" "CHR ''+'' \<notin> set i"
  shows "parseTimeControl (b @ CHR ''+'' # i) =
         spec_baseLabel (digitsVal b) @ CHR ''+'' # (case Number i of NaN \<Rightarrow> ''0'' | Num k \<Rightarrow> showInt k)"
proof -
  have "CHR ''+'' \<notin> set b"
    using assms(2) by (intro digits_no_char) (simp_all add: isDigit_def)
  then have "split (CHR ''+'') (b @ CHR ''+'' # i) = [b, i]"
    using assms(3) by (simp add: split_run split_no_sep)
  then show ?thesis
    using assms
    by (simp add: parseTimeControl_other plus_not_dayCode Number_digits elem_def baseLabel_code)
qed

text \<open>
  Claim C9, as the code has it. \<open>parseTimeControl\<close> maps the five day codes to their
  labels. A base written in decimal digits (below \<open>10^15\<close>) is rendered as the spec's
  label (\<open>spec_baseLabel\<close>), followed by \<open>+\<close> and the increment, which is 0 when there
  is none or when it is not numeric. A string that is not a day code and whose base is
  not numeric gives \<open>-\<close>; the empty string is not among them: its base is read as 0
  and it gives \<open>0s+0\<close>. And \<open>180+2\<close> gives \<open>3+2\<close>, \<open>30\<close> gives \<open>30s+0\<close>.
\<close>

theorem parseTimeControl_spec:
  "parseTimeControl ''1/86400'' = ''1 day'' \<and>
   parseTimeControl ''1/259200'' = ''3 days'' \<and>
   parseTimeControl ''1/432000'' = ''5 days'' \<and>
   parseTimeControl ''1/604800'' = ''7 days'' \<and>
   parseTimeControl ''1/1209600'' = ''14 days'' \<and>
   (decimalBelow exactLimit b \<longrightarrow>
      parseTimeControl b = spec_baseLabel (digitsVal b) @ ''+0'') \<and>
   (decimalBelow exactLimit b \<and> decimalBelow exactLimit i \<longrightarrow>
      parseTimeControl (b @ ''+'' @ i) =
        spec_baseLabel (digitsVal b) @ ''+'' @ showNat (digitsVal i)) \<and>
   (decimalBelow exactLimit b \<and> CHR ''+'' \<notin> set j \<and> notNumeric j \<longrightarrow>
      parseTimeControl (b @ ''+'' @ j) = spec_baseLabel (digitsVal b) @ ''+0'') \<and>
   (tc \<notin> set dayCodes \<and> notNumeric (hd (split (CHR ''+'') tc)) \<longrightarrow>
      parseTimeControl tc = ''-'') \<and>
   parseTimeControl [] = ''0s+0'' \<and>
   parseTimeControl ''180+2'' = ''3+2'' \<and>
   parseTimeControl ''30'' = ''30s+0''"
proof (intro conjI impI)
  show "parseTimeControl ''1/86400'' = ''1 day''" by (simp add: parseTimeControl_def)
  show "parseTimeControl ''1/259200'' = ''3 days''" by (simp add: parseTimeControl_def)
  show "parseTimeControl ''1/432000'' = ''5 days''" by (simp add: parseTimeControl_def)
  show "parseTimeControl ''1/604800'' = ''7 days''" by (simp add: parseTimeControl_def)
  show "parseTimeControl ''1/1209600'' = ''14 days''" by (simp add: parseTimeControl_def)
next
  assume "decimalBelow exactLimit b"
  then show "parseTimeControl b = spec_baseLabel (digitsVal b) @ ''+0''"
    by (simp add: parseTimeControl_base decimalBelow_def)
next
  assume "decimalBelow exactLimit b \<and> decimalBelow exactLimit i"
  then have a: "b \<noteq> [] \<and> list_all isDigit b \<and> i \<noteq> [] \<and> list_all isDigit i"
    by (simp add: decimalBelow_def)
  then have "CHR ''+'' \<notin> set i" by (intro digits_no_char) (simp_all add: isDigit_def)
  with a show "parseTimeControl (b @ ''+'' @ i) =
      spec_baseLabel (digitsVal b) @ ''+'' @ showNat (digitsVal i)"
    by (simp add: parseTimeControl_increment Number_digits showInt_nat)
next
  assume "decimalBelow exactLimit b \<and> CHR ''+'' \<notin> set j \<and> notNumeric j"
  then show "parseTimeControl (b @ ''+'' @ j) = spec_baseLabel (digitsVal b) @ ''+0''"
    by (simp add: parseTimeControl_increment notNumeric_NaN decimalBelow_def)
next
  assume a: "tc \<notin> set dayCodes \<and> notNumeric (hd (split (CHR ''+'') tc))"
  have "split (CHR ''+'') tc \<noteq> []" by (cases tc) (auto split: list.splits)
  then have "elem (map Number (split (CHR ''+'') tc)) 0 = Number (hd (split (CHR ''+'') tc))"
    by (cases "split (CHR ''+'') tc") (simp_all add: elem_def)
  with a show "parseTimeControl tc = ''-''"
    by (simp add: parseTimeControl_other notNumeric_NaN)
next
  show "parseTimeControl [] = ''0s+0''"
    by (simp add: parseTimeControl_def Number_def trim_def elem_def jsRem_def showInt_def
        showNat.simps digitChar_def)
next
  have "parseTimeControl (''180'' @ CHR ''+'' # ''2'') =
     spec_baseLabel (digitsVal ''180'') @ CHR ''+'' # (case Number ''2'' of NaN \<Rightarrow> ''0'' | Num k \<Rightarrow> showInt k)"
    by (rule parseTimeControl_increment) (simp_all add: isDigit_def)
  then show "parseTimeControl ''180+2'' = ''3+2''"
    by (simp add: spec_baseLabel_def digitsVal_def digitVal_def isDigit_def Number_def trim_def
        isSpace_def showInt_def showNat.simps digitChar_def)
next
  have "parseTimeControl ''30'' = spec_baseLabel (digitsVal ''30'') @ ''+0''"
    by (rule parseTimeControl_base) (simp_all add: isDigit_def)
  then show "parseTimeControl ''30'' = ''30s+0''"
    by (simp add: spec_baseLabel_def digitsVal_def digitVal_def isDigit_def showNat.simps digitChar_def)
qed

theorem parseTimeControl_spec_witness:
  "parseTimeControl ''605'' = ''10:05+0'' \<and>
   parseTimeControl ''605+5'' = ''10:05+5'' \<and>
   parseTimeControl ''605+unlimited'' = ''10:05+0'' \<and>
   parseTimeControl ''1/172800'' = ''-''"
  using parseTimeControl_spec [of "''605''" "''5''" "''unlimited''" "''1/172800''"]
  by (simp add: spec_baseLabel_def digitsVal_def digitVal_def isDigit_def notNumeric_def
        numeralChars_def isSpace_def showNat.simps digitChar_def padStart2_def dayCodes_def
        decimalBelow_def exactLimit_def)

text \<open>
  Claim C9 as the spec words it fails at the empty string, which has no base to parse
  and is rendered \<open>0s+0\<close>, not \<open>-\<close>, and at a signed base: \<open>-90\<close> is below 60 and is
  rendered \<open>-30s+0\<close>, from its remainder, not as its 90 seconds.
\<close>

theorem parseTimeControl_empty_and_signed_counterexample:
  "parseTimeControl [] = ''0s+0'' \<and> parseTimeControl [] \<noteq> ''-'' \<and>
   parseTimeControl ''-90'' = ''-30s+0'' \<and> parseTimeControl ''-90'' \<noteq> ''-90s+0''"
  by (simp add: parseTimeControl_def Number_def trim_def isSpace_def isDigit_def elem_def
      jsRem_def showInt_def showNat.simps digitChar_def digitsVal_def digitVal_def)

subsection \<open>Think times\<close>










lemma showInt_chars: "c \<in> set (showInt i) \<Longrightarrow> c = CHR ''-'' \<or> isDigit c"
  using showNat_digits [of "nat i"] showNat_digits [of "nat (- i)"]
  by (auto simp: showInt_def list_all_iff split: if_splits)

lemma Number_showInt: "Number (showInt i) = Num i"
proof (cases "i < 0")
  case False
  then show ?thesis by (simp add: showInt_def Number_showNat)
next
  case True
  define n where "n = nat (- i)"
  have s: "showInt i = CHR ''-'' # showNat n" using True by (simp add: showInt_def n_def)
  have ne: "showNat n \<noteq> []" by (rule showNat_nonempty)
  have dg: "list_all isDigit (showNat n)" by (rule showNat_digits)
  have "last (showNat n) \<in> set (showNat n)" using ne by simp
  then have "isDigit (last (showNat n))" using dg by (simp add: list_all_iff)
  then have "\<not> isSpace (last (CHR ''-'' # showNat n))" using ne by (simp add: isDigit_not_space)
  moreover have "\<not> isSpace (hd (CHR ''-'' # showNat n))" by (simp add: isSpace_def)
  ultimately have tr: "trim (CHR ''-'' # showNat n) = CHR ''-'' # showNat n"
    by (intro trim_id) simp
  have "Number (CHR ''-'' # showNat n) = Num (- int (digitsVal (showNat n)))"
    using ne dg by (simp add: Number_def tr colon_not_digit)
  then show ?thesis using True by (simp add: s digitsVal_showNat n_def)
qed

lemma digitsVal_zero: "digitsVal (CHR ''0'' # s) = digitsVal s"
  by (simp add: digitsVal_def digitVal_def isDigit_def)

lemma Number_padStart2: "Number (padStart2 (showInt i)) = Num i"
proof (cases "length (showInt i) \<ge> 2")
  case True
  then show ?thesis by (simp add: padStart2_def Number_showInt)
next
  case False
  have nn: "\<not> i < 0"
  proof
    assume "i < 0"
    then have "length (showInt i) \<ge> 2"
      using showNat_nonempty [of "nat (- i)"]
      by (cases "showNat (nat (- i))") (simp_all add: showInt_def)
    with False show False by simp
  qed
  then have s: "showInt i = showNat (nat i)" by (simp add: showInt_def)
  have len: "length (showNat (nat i)) = 1"
    using False showNat_nonempty [of "nat i"] s by (cases "showNat (nat i)") (auto simp: not_le)
  then have p: "padStart2 (showInt i) = CHR ''0'' # showNat (nat i)"
    by (simp add: padStart2_def s)
  have "list_all isDigit (CHR ''0'' # showNat (nat i))"
    using showNat_digits [of "nat i"] by (simp add: isDigit_def)
  then have "Number (CHR ''0'' # showNat (nat i)) = Num (int (digitsVal (CHR ''0'' # showNat (nat i))))"
    by (intro Number_digits) simp_all
  then show ?thesis using nn by (simp add: p digitsVal_zero digitsVal_showNat)
qed

lemma colon_not_in_showInt: "CHR '':'' \<notin> set (showInt i)"
  using showInt_chars [of "CHR '':''" i] by (auto simp: colon_not_digit)

lemma colon_not_in_padStart2: "CHR '':'' \<notin> set (padStart2 (showInt i))"
  using colon_not_in_showInt [of i] by (auto simp: padStart2_def)

lemma split_formatClockTime:
  "split (CHR '':'') (formatClockTime c) =
     [showInt (c div 100 div 60), padStart2 (showInt (jsRem (c div 100) 60))]"
  by (simp add: formatClockTime_def Let_def split_run split_no_sep colon_not_in_showInt
      colon_not_in_padStart2)

lemma formatClockTime_nonempty: "formatClockTime c \<noteq> []"
  by (simp add: formatClockTime_def Let_def)

lemma lichess_spent_exact:
  "lichess_calculateTimeSpent (Some (formatClockTime c)) (Some (formatClockTime p)) inc =
     (if clockSeconds p - clockSeconds c + inc \<le> 0 then None
      else Some (showInt (clockSeconds p - clockSeconds c + inc) @ ''s''))"
  by (simp add: lichess_calculateTimeSpent_def formatClockTime_nonempty split_formatClockTime
      elem_def Number_showInt Number_padStart2 clockSeconds_def jsToString_def Let_def)







subsection \<open>The plies of service B\<close>

lemma moveStep_blank: "\<not> nonBlank im \<Longrightarrow> moveStep cl inc st im = st"
  by (simp add: moveStep_def nonBlank_def Let_def)

lemma moveStep_facts:
  "nonBlank im \<Longrightarrow>
   map plyFacts (moves (moveStep cl inc st im)) = map plyFacts (moves st) @ [spec_plyFacts cl im]"
  by (simp add: moveStep_def nonBlank_def Let_def plyFacts_def spec_plyFacts_def even_iff_mod_2_eq_zero)

lemma foldl_moveStep_facts:
  "map plyFacts (moves (foldl (moveStep cl inc) st ims)) =
   map plyFacts (moves st) @ map (spec_plyFacts cl) (filter nonBlank ims)"
proof (induction ims arbitrary: st)
  case Nil
  then show ?case by simp
next
  case (Cons im ims)
  show ?case
  proof (cases "nonBlank im")
    case True
    then show ?thesis by (simp add: Cons.IH moveStep_facts)
  next
    case False
    then show ?thesis by (simp add: Cons.IH moveStep_blank)
  qed
qed

lemma lichess_moves_facts:
  "map plyFacts (lichess_moves game) =
   map (spec_plyFacts (l_clocks game)) (filter nonBlank (enumerate 0 (split (CHR '' '') (l_moves game))))"
  by (simp add: lichess_moves_def Let_def foldl_moveStep_facts)

lemma lichess_spent_no_previous: "lichess_calculateTimeSpent cur None inc = None"
  by (simp add: lichess_calculateTimeSpent_def split: option.splits)

lemma lichess_spent_no_clock: "lichess_calculateTimeSpent None prev inc = None"
  by (simp add: lichess_calculateTimeSpent_def)

lemma moveStep_noClock:
  assumes "\<forall>mv \<in> set (moves st). noClockNoSpent mv"
  shows "\<forall>mv \<in> set (moves (moveStep cl inc st im)). noClockNoSpent mv"
proof (cases "trim (snd im) = []")
  case True
  then show ?thesis using assms by (simp add: moveStep_def Let_def)
next
  case False
  then show ?thesis using assms
    by (auto simp: moveStep_def Let_def noClockNoSpent_def lichess_spent_no_clock)
qed

lemma foldl_moveStep_noClock:
  "\<forall>mv \<in> set (moves st). noClockNoSpent mv \<Longrightarrow>
   \<forall>mv \<in> set (moves (foldl (moveStep cl inc) st ims)). noClockNoSpent mv"
proof (induction ims arbitrary: st)
  case Nil
  then show ?case by simp
next
  case (Cons im ims)
  from moveStep_noClock [OF Cons.prems]
  have "\<forall>mv \<in> set (moves (moveStep cl inc st im)). noClockNoSpent mv" .
  from Cons.IH [OF this] show ?case by simp
qed

lemma lichess_moves_noClock: "mv \<in> set (lichess_moves game) \<Longrightarrow> noClockNoSpent mv"
  using foldl_moveStep_noClock
    [of "\<lparr>moves = [], previousWhiteClock = None, previousBlackClock = None\<rparr>"]
  by (simp add: lichess_moves_def Let_def)

subsection \<open>Think times and the previous clock of the same colour\<close>

text \<open>Service A: the loop keeps the invariant, so every record of \<open>formatPGN\<close> has the
  think time that the helper gives at the previous record of its colour; and when the
  annotations of the text are in range, so is every recorded clock.\<close>

lemma parseClockComment_nonempty: "parseClockComment c = Some clock \<Longrightarrow> clock \<noteq> []"
  by (auto simp: parseClockComment_def split: option.splits)





























subsection \<open>Evaluated examples\<close>

text \<open>The definitions that the simplifier unfolds to run \<open>formatPGN\<close> on a given text.\<close>

lemmas eval_defs =
  formatPGN_def formatTokens_def tokenize_def plyStep_def initial_state_def sinceClock_def
  chesscom_calculateTimeSpent_def parseClockComment_def matchClkAt_def clkField_def clkSeconds_def
  floorParseFloat_def matchMoveAt_def moveTail_def braceGroupLen_def matchHeaderAt_def
  spaceNewlineLen_def stripMoveNumber_def dropDot_def trim_def isDigit_def isSpace_def
  isLineTerminator_def digitsVal_def digitVal_def digitChar_def showNat.simps showInt_def
  jsToString_def Number_def elem_def Let_def

lemma formatPGN_examplePgn:
  "formatPGN examplePgn =
    (''1. e4 1... e5 2. Nf3 2... Nc6'',
     [\<lparr>time = ''0:10:0'', moveText = ''e4'', moveNumber = 1, isWhite = True, timeSpent = None\<rparr>,
      \<lparr>time = ''0:09:0'', moveText = ''e5'', moveNumber = 1, isWhite = False, timeSpent = None\<rparr>,
      \<lparr>time = ''0:09:50'', moveText = ''Nf3'', moveNumber = 2, isWhite = True, timeSpent = Some ''10''\<rparr>,
      \<lparr>time = ''0:09:50'', moveText = ''Nc6'', moveNumber = 2, isWhite = False, timeSpent = None\<rparr>])"
  by (simp add: examplePgn_def eval_defs)

lemma formatClockTime_examples:
  "formatClockTime 60000 = ''10:00''" "formatClockTime 58000 = ''9:40''"
  by (simp_all add: formatClockTime_def jsRem_def padStart2_def showInt_def showNat.simps
      digitChar_def)

lemma lichess_spent_example:
  "lichess_calculateTimeSpent (Some ''9:40'') (Some ''10:00'') 2 = Some ''22s''"
  using lichess_spent_exact [of 58000 60000 2]
  by (simp add: formatClockTime_examples clockSeconds_def jsRem_def showInt_def showNat.simps
      digitChar_def)

lemma split_example: "split (CHR '' '') ''e4 e5 Nf3  Nc6'' = [''e4'', ''e5'', ''Nf3'', [], ''Nc6'']"
  by simp

lemma trim_examples: "trim ''e4'' \<noteq> []" "trim ''e5'' \<noteq> []" "trim ''Nf3'' \<noteq> []" "trim [] = []" "trim ''Nc6'' \<noteq> []"
  by (simp_all add: trim_def isSpace_def)

lemma lichess_moves_example:
  "lichess_moves exampleGame =
    [\<lparr>move = ''e4'', l_moveNumber = 1, clockWhite = Some ''10:00'', clockBlack = None,
      timeSpentWhite = None, timeSpentBlack = None\<rparr>,
     \<lparr>move = ''e5'', l_moveNumber = 1, clockWhite = None, clockBlack = Some ''10:00'',
      timeSpentWhite = None, timeSpentBlack = None\<rparr>,
     \<lparr>move = ''Nf3'', l_moveNumber = 2, clockWhite = Some ''9:40'', clockBlack = None,
      timeSpentWhite = Some ''22s'', timeSpentBlack = None\<rparr>,
     \<lparr>move = ''Nc6'', l_moveNumber = 3, clockWhite = None, clockBlack = None,
      timeSpentWhite = None, timeSpentBlack = None\<rparr>]"
  by (simp add: exampleGame_def lichess_moves_def split_example moveStep_def trim_examples clockAt_def
      formatClockTime_examples lichess_spent_example lichess_spent_no_previous
      lichess_spent_no_clock Let_def)










subsection \<open>The claims on think times and on the plies of service B\<close>



text \<open>
  Claim C10. The records of service B are, in order, one for every token of the move
  list that is not blank: the token at index \<open>i\<close> gets the full-move number
  \<open>i div 2 + 1\<close> and, on the side that the parity of \<open>i\<close> gives, the clock read under
  the bounds guard; a ply without a clock has no think time; and the guarded read is
  absent when there is no clock array or \<open>i\<close> is not below its length.
\<close>

theorem lichess_every_ply_recorded:
  "map (\<lambda>mv. (move mv, l_moveNumber mv, clockWhite mv, clockBlack mv)) (lichess_moves game) =
     map (\<lambda>(i, tok). (tok, i div 2 + 1,
                        if even i then clockAt (l_clocks game) i else None,
                        if even i then None else clockAt (l_clocks game) i))
       (filter (\<lambda>(i, tok). trim tok \<noteq> []) (enumerate 0 (split (CHR '' '') (l_moves game)))) \<and>
   (\<forall>mv \<in> set (lichess_moves game).
      (clockWhite mv = None \<longrightarrow> timeSpentWhite mv = None) \<and>
      (clockBlack mv = None \<longrightarrow> timeSpentBlack mv = None)) \<and>
   clockAt None i = None \<and>
   (length cs \<le> i \<longrightarrow> clockAt (Some cs) i = None) \<and>
   (i < length cs \<longrightarrow> clockAt (Some cs) i = Some (formatClockTime (cs ! i)))"
proof (intro conjI ballI impI)
  have a: "(\<lambda>mv. (move mv, l_moveNumber mv, clockWhite mv, clockBlack mv)) = plyFacts"
    by (simp add: plyFacts_def fun_eq_iff)
  have b: "(\<lambda>(i, tok). (tok, i div 2 + 1,
                        if even i then clockAt (l_clocks game) i else None,
                        if even i then None else clockAt (l_clocks game) i)) = spec_plyFacts (l_clocks game)"
    by (simp add: spec_plyFacts_def fun_eq_iff)
  have c: "(\<lambda>(i, tok). trim tok \<noteq> []) = nonBlank"
    by (simp add: nonBlank_def fun_eq_iff)
  show "map (\<lambda>mv. (move mv, l_moveNumber mv, clockWhite mv, clockBlack mv)) (lichess_moves game) =
     map (\<lambda>(i, tok). (tok, i div 2 + 1,
                        if even i then clockAt (l_clocks game) i else None,
                        if even i then None else clockAt (l_clocks game) i))
       (filter (\<lambda>(i, tok). trim tok \<noteq> []) (enumerate 0 (split (CHR '' '') (l_moves game))))"
    unfolding a b c by (rule lichess_moves_facts)
next
  fix mv assume "mv \<in> set (lichess_moves game)" "clockWhite mv = None"
  then show "timeSpentWhite mv = None"
    using lichess_moves_noClock [of mv game] by (simp add: noClockNoSpent_def)
next
  fix mv assume "mv \<in> set (lichess_moves game)" "clockBlack mv = None"
  then show "timeSpentBlack mv = None"
    using lichess_moves_noClock [of mv game] by (simp add: noClockNoSpent_def)
next
  show "clockAt None i = None" by (simp add: clockAt_def)
next
  assume "length cs \<le> i" then show "clockAt (Some cs) i = None" by (simp add: clockAt_def)
next
  assume "i < length cs" then show "clockAt (Some cs) i = Some (formatClockTime (cs ! i))"
    by (simp add: clockAt_def)
qed

theorem lichess_every_ply_recorded_witness:
  "map (\<lambda>mv. (move mv, l_moveNumber mv, clockWhite mv, clockBlack mv)) (lichess_moves exampleGame) =
     [(''e4'', 1, Some ''10:00'', None), (''e5'', 1, None, Some ''10:00''),
      (''Nf3'', 2, Some ''9:40'', None), (''Nc6'', 3, None, None)] \<and>
   timeSpentWhite (lichess_moves exampleGame ! 3) = None \<and>
   timeSpentBlack (lichess_moves exampleGame ! 3) = None \<and>
   clockAt (Some [60000, 60000, 58000]) 4 = None \<and>
   clockAt (Some [60000, 60000, 58000]) 2 = Some ''9:40''"
  using lichess_every_ply_recorded [of exampleGame 4 "[60000, 60000, 58000]"]
    lichess_every_ply_recorded [of exampleGame 2 "[60000, 60000, 58000]"]
  by (simp add: lichess_moves_example formatClockTime_examples)

subsection \<open>The fetch operations\<close>

lemma catchBlock_Inl: "catchBlock (Inl e) = Inl (rethrown e)"
  by (simp add: catchBlock_def rethrown_def split: thrown.splits)

lemma catchBlock_Inr_iff: "catchBlock outcome = Inr gs \<longleftrightarrow> outcome = Inr gs"
  by (auto simp: catchBlock_def split: sum.splits thrown.splits)

lemma chesscom_try_nonempty:
  "chesscom_try u st en gt span fa fg = Inr gs \<Longrightarrow> gs \<noteq> []"
  by (auto simp: chesscom_try_def Let_def split: sum.splits option.splits if_splits)

lemma lichess_try_nonempty:
  "lichess_try u gt st en fetch JSON_parse = Inr gs \<Longrightarrow> gs \<noteq> []"
  by (auto simp: lichess_try_def Let_def split: sum.splits option.splits if_splits)

lemma chesscom_try_none_qualify:
  assumes "fa (archivesUrl u) = Inr \<lparr>ok = True, body = Inr (Some archives)\<rparr>"
    and "chesscom_qualifying u st en gt (allGamesOf fg (relevantArchives st en span archives)) = []"
  shows "chesscom_try u st en gt span fa fg = Inl noGamesFound"
  using assms by (simp add: chesscom_try_def Let_def)

lemma lichess_try_none_qualify:
  assumes "fetch (lichess_url u gt st en) = Inr \<lparr>ok = True, body = Inr bodyText\<rparr>"
    and "mapThrowing JSON_parse (split (CHR 0x0A) (trim bodyText)) = Inr games"
    and "lichess_qualifying u games = []"
  shows "lichess_try u gt st en fetch JSON_parse = Inl noGamesFound"
  using assms by (simp add: lichess_try_def Let_def)

lemma rethrown_noGamesFound: "rethrown noGamesFound = noGamesFound"
  by (simp add: rethrown_def noGamesFound_def)

lemma toLowerCase_examples:
  "toLowerCase ''Alice'' = ''alice''" "toLowerCase ''alice'' = ''alice''"
  "toLowerCase ''Bob'' = ''bob''" "toLowerCase ''bob'' = ''bob''"
  "toLowerCase ''SuperBot2000'' = ''superbot2000''"
  by (simp_all add: toLowerCase_def lowerChar_def upperLetters_def lowerLetters_def)

lemma parseTimeControl_600: "parseTimeControl ''600'' = ''10+0''"
  using parseTimeControl_base [of "''600''"]
  by (simp add: isDigit_def spec_baseLabel_def digitsVal_def digitVal_def showNat.simps digitChar_def)

lemma chesscom_normalize_example:
  "chesscom_normalize ''bob'' examplePlayed =
     Inr \<lparr>n_id = ''https://www.chess.com/game/live/1'', n_date = 1704800000000,
          n_whitePlayer = ''Alice'', n_blackPlayer = ''Bob'', n_result = Loss, n_rating = 1400,
          n_gameType = ''rapid rated'', n_timeControl = ''10+0'',
          n_pgn = fst (formatPGN examplePgn), n_clocks = snd (formatPGN examplePgn),
          n_expanded = False\<rparr>"
  by (simp add: chesscom_normalize_def examplePlayed_def toLowerCase_examples toISOString_def
      parseTimeControl_600 Let_def)

lemma qualifying_example:
  "chesscom_qualifying ''bob'' (Num 0) None ''all'' [examplePlayed] = [examplePlayed]"
  "chesscom_qualifying ''bob'' (Num 0) None ''all'' [exampleVariant] = []"
  by (simp_all add: chesscom_qualifying_def inDateRange_def leEnd_def ofGameType_def
      standardRules_def standardSetup_def absentOr_def humanOpponent_def examplePlayed_def
      exampleVariant_def toLowerCase_examples Let_def)

lemma allGames_example:
  "allGamesOf (serving (Some gs)) (relevantArchives (Num 0) None january
      [''https://api.chess.com/pub/player/alice/games/2024/01'']) = gs"
  by (simp add: allGamesOf_def relevantArchives_def overlapsWindow_def january_def leEnd_def
      serving_def archiveGames_def Let_def)

lemma fetchChessComGames_example:
  "fetchChessComGames ''bob'' (Num 0) None ''all'' january oneArchive (serving (Some [examplePlayed])) =
     Inr [\<lparr>n_id = ''https://www.chess.com/game/live/1'', n_date = 1704800000000,
          n_whitePlayer = ''Alice'', n_blackPlayer = ''Bob'', n_result = Loss, n_rating = 1400,
          n_gameType = ''rapid rated'', n_timeControl = ''10+0'',
          n_pgn = fst (formatPGN examplePgn), n_clocks = snd (formatPGN examplePgn),
          n_expanded = False\<rparr>]"
  by (simp add: fetchChessComGames_def chesscom_try_def oneArchive_def allGames_example
      qualifying_example chesscom_normalize_example catchBlock_def Let_def)

lemma lichess_qualifying_example:
  "lichess_qualifying ''bob'' [exampleGame] = [exampleGame]"
  "lichess_qualifying ''alice'' [exampleBotGame] = []"
  by (simp_all add: lichess_qualifying_def l_standardSetup_def l_humanOpponent_def absentOr_def
      exampleGame_def exampleBotGame_def toLowerCase_examples Let_def)

lemma lichess_normalize_example:
  "lichess_normalize exampleGame =
     Inr \<lparr>r_id = ''g1'', r_date = 1700000000000, r_whitePlayer = ''alice'', r_blackPlayer = ''bob'',
          r_result = Win, r_rating = 1500, r_gameType = ''rapid rated'',
          r_timeControl = Some \<lparr>initial = 600, increment = 2\<rparr>,
          r_moves = lichess_moves exampleGame, r_expanded = False\<rparr>"
  by (simp add: lichess_normalize_def toISOString_def) (simp add: exampleGame_def)

lemma oneLine: "trim ''{}'' = ''{}''" "split (CHR 0x0A) ''{}'' = [''{}'']"
  by (simp_all add: trim_def isSpace_def)

lemma fetchLichessGames_example:
  "fetchLichessGames ''bob'' ''all'' (Num 0) (Num 1800000000000) (serving ''{}'') (\<lambda>line. Inr exampleGame) =
     Inr [\<lparr>r_id = ''g1'', r_date = 1700000000000, r_whitePlayer = ''alice'', r_blackPlayer = ''bob'',
          r_result = Win, r_rating = 1500, r_gameType = ''rapid rated'',
          r_timeControl = Some \<lparr>initial = 600, increment = 2\<rparr>,
          r_moves = lichess_moves exampleGame, r_expanded = False\<rparr>]"
  by (simp add: fetchLichessGames_def lichess_try_def serving_def oneLine
      lichess_qualifying_example lichess_normalize_example catchBlock_def Let_def)

text \<open>
  Claim C8. Neither adapter returns an empty list: a successful return of
  \<open>fetchChessComGames\<close> or \<open>fetchLichessGames\<close> is never \<open>[]\<close>, and when the archive
  index (the response of service B) was read and no game passes the filters, the
  operation fails with the error \<open>No games found\<close>.
\<close>

theorem empty_result_is_an_error:
  "(fetchChessComGames u st en gt span fa fg = Inr gs \<longrightarrow> gs \<noteq> []) \<and>
   (fa (archivesUrl u) = Inr \<lparr>ok = True, body = Inr (Some archives)\<rparr> \<and>
    chesscom_qualifying u st en gt (allGamesOf fg (relevantArchives st en span archives)) = [] \<longrightarrow>
      fetchChessComGames u st en gt span fa fg = Inl noGamesFound) \<and>
   (fetchLichessGames v gt' st' en' fetch JSON_parse = Inr gs' \<longrightarrow> gs' \<noteq> []) \<and>
   (fetch (lichess_url v gt' st' en') = Inr \<lparr>ok = True, body = Inr bodyText\<rparr> \<and>
    mapThrowing JSON_parse (split (CHR 0x0A) (trim bodyText)) = Inr games \<and>
    lichess_qualifying v games = [] \<longrightarrow>
      fetchLichessGames v gt' st' en' fetch JSON_parse = Inl noGamesFound)"
proof (intro conjI impI)
  assume "fetchChessComGames u st en gt span fa fg = Inr gs"
  then have "chesscom_try u st en gt span fa fg = Inr gs"
    by (simp add: fetchChessComGames_def catchBlock_Inr_iff)
  then show "gs \<noteq> []" by (rule chesscom_try_nonempty)
next
  assume "fa (archivesUrl u) = Inr \<lparr>ok = True, body = Inr (Some archives)\<rparr> \<and>
    chesscom_qualifying u st en gt (allGamesOf fg (relevantArchives st en span archives)) = []"
  then have "chesscom_try u st en gt span fa fg = Inl noGamesFound"
    using chesscom_try_none_qualify [of fa u archives st en gt fg span] by simp
  then show "fetchChessComGames u st en gt span fa fg = Inl noGamesFound"
    by (simp add: fetchChessComGames_def catchBlock_Inl rethrown_noGamesFound)
next
  assume "fetchLichessGames v gt' st' en' fetch JSON_parse = Inr gs'"
  then have "lichess_try v gt' st' en' fetch JSON_parse = Inr gs'"
    by (simp add: fetchLichessGames_def catchBlock_Inr_iff)
  then show "gs' \<noteq> []" by (rule lichess_try_nonempty)
next
  assume "fetch (lichess_url v gt' st' en') = Inr \<lparr>ok = True, body = Inr bodyText\<rparr> \<and>
    mapThrowing JSON_parse (split (CHR 0x0A) (trim bodyText)) = Inr games \<and>
    lichess_qualifying v games = []"
  then have "lichess_try v gt' st' en' fetch JSON_parse = Inl noGamesFound"
    using lichess_try_none_qualify [of "fetch" "v" "gt'" "st'" "en'" "bodyText" "JSON_parse" "games"] by simp
  then show "fetchLichessGames v gt' st' en' fetch JSON_parse = Inl noGamesFound"
    by (simp add: fetchLichessGames_def catchBlock_Inl rethrown_noGamesFound)
qed

theorem empty_result_is_an_error_witness:
  "fetchChessComGames ''bob'' (Num 0) None ''all'' january oneArchive (serving (Some [exampleVariant])) =
     Inl noGamesFound \<and>
   fetchLichessGames ''alice'' ''all'' (Num 0) (Num 1800000000000) (serving ''{}'')
       (\<lambda>line. Inr exampleBotGame) = Inl noGamesFound \<and>
   (\<exists>g. fetchChessComGames ''bob'' (Num 0) None ''all'' january oneArchive
           (serving (Some [examplePlayed])) = Inr [g]) \<and>
   (\<exists>g. fetchLichessGames ''bob'' ''all'' (Num 0) (Num 1800000000000) (serving ''{}'')
           (\<lambda>line. Inr exampleGame) = Inr [g])"
  using empty_result_is_an_error
    [where u = "''bob''" and st = "Num 0" and en = None and gt = "''all''" and span = january
       and fa = oneArchive and fg = "serving (Some [examplePlayed])" and gs = "[g]"
       and v = "''bob''" and gt' = "''all''" and st' = "Num 0" and en' = "Num 1800000000000"
       and fetch = "serving ''{}''" and JSON_parse = "\<lambda>line. Inr exampleGame" and gs' = "[g']"
       for g g']
    empty_result_is_an_error
    [where u = "''bob''" and st = "Num 0" and en = None and gt = "''all''" and span = january
       and fa = oneArchive and fg = "serving (Some [exampleVariant])"
       and archives = "[''https://api.chess.com/pub/player/alice/games/2024/01'']"
       and v = "''alice''" and gt' = "''all''" and st' = "Num 0" and en' = "Num 1800000000000"
       and fetch = "serving ''{}''" and JSON_parse = "\<lambda>line. Inr exampleBotGame"
       and bodyText = "''{}''" and games = "[exampleBotGame]"]
  by (simp add: oneArchive_def allGames_example qualifying_example lichess_qualifying_example
      serving_def oneLine fetchChessComGames_example fetchLichessGames_example)

text \<open>
  Claim C3, as the code has it. The \<open>catch\<close> block re-throws unchanged every caught
  value that is an instance of \<open>Error\<close>, whatever its class: the \<open>TypeError\<close> of a failed
  request and the \<open>SyntaxError\<close> of malformed JSON reach the caller as they are. Only a
  caught value that is not an \<open>Error\<close> is replaced by the error \<open>No games found\<close>.
\<close>

theorem catch_rethrows_every_Error:
  "(chesscom_try u st en gt span fa fg = Inl (ErrorObject n m) \<longrightarrow>
      fetchChessComGames u st en gt span fa fg = Inl (ErrorObject n m)) \<and>
   (chesscom_try u st en gt span fa fg = Inl (OtherValue x) \<longrightarrow>
      fetchChessComGames u st en gt span fa fg = Inl noGamesFound) \<and>
   (lichess_try v gt' st' en' fetch JSON_parse = Inl (ErrorObject n' m') \<longrightarrow>
      fetchLichessGames v gt' st' en' fetch JSON_parse = Inl (ErrorObject n' m')) \<and>
   (lichess_try v gt' st' en' fetch JSON_parse = Inl (OtherValue x') \<longrightarrow>
      fetchLichessGames v gt' st' en' fetch JSON_parse = Inl noGamesFound) \<and>
   (fa (archivesUrl u) = Inl e \<longrightarrow>
      fetchChessComGames u st en gt span fa fg = Inl (rethrown e)) \<and>
   (fetch (lichess_url v gt' st' en') = Inl e' \<longrightarrow>
      fetchLichessGames v gt' st' en' fetch JSON_parse = Inl (rethrown e')) \<and>
   (fetch (lichess_url v gt' st' en') = Inr \<lparr>ok = True, body = Inr bodyText\<rparr> \<and> trim bodyText \<noteq> [] \<and>
    mapThrowing JSON_parse (split (CHR 0x0A) (trim bodyText)) = Inl e'' \<longrightarrow>
      fetchLichessGames v gt' st' en' fetch JSON_parse = Inl (rethrown e'')) \<and>
   rethrown (ErrorObject n m) = ErrorObject n m \<and>
   rethrown (OtherValue x) = noGamesFound"
proof (intro conjI impI)
  assume "chesscom_try u st en gt span fa fg = Inl (ErrorObject n m)"
  then show "fetchChessComGames u st en gt span fa fg = Inl (ErrorObject n m)"
    by (simp add: fetchChessComGames_def catchBlock_def)
next
  assume "chesscom_try u st en gt span fa fg = Inl (OtherValue x)"
  then show "fetchChessComGames u st en gt span fa fg = Inl noGamesFound"
    by (simp add: fetchChessComGames_def catchBlock_def)
next
  assume "lichess_try v gt' st' en' fetch JSON_parse = Inl (ErrorObject n' m')"
  then show "fetchLichessGames v gt' st' en' fetch JSON_parse = Inl (ErrorObject n' m')"
    by (simp add: fetchLichessGames_def catchBlock_def)
next
  assume "lichess_try v gt' st' en' fetch JSON_parse = Inl (OtherValue x')"
  then show "fetchLichessGames v gt' st' en' fetch JSON_parse = Inl noGamesFound"
    by (simp add: fetchLichessGames_def catchBlock_def)
next
  assume "fa (archivesUrl u) = Inl e"
  then have "chesscom_try u st en gt span fa fg = Inl e" by (simp add: chesscom_try_def)
  then show "fetchChessComGames u st en gt span fa fg = Inl (rethrown e)"
    by (simp add: fetchChessComGames_def catchBlock_Inl)
next
  assume "fetch (lichess_url v gt' st' en') = Inl e'"
  then have "lichess_try v gt' st' en' fetch JSON_parse = Inl e'" by (simp add: lichess_try_def)
  then show "fetchLichessGames v gt' st' en' fetch JSON_parse = Inl (rethrown e')"
    by (simp add: fetchLichessGames_def catchBlock_Inl)
next
  assume "fetch (lichess_url v gt' st' en') = Inr \<lparr>ok = True, body = Inr bodyText\<rparr> \<and> trim bodyText \<noteq> [] \<and>
    mapThrowing JSON_parse (split (CHR 0x0A) (trim bodyText)) = Inl e''"
  then have "lichess_try v gt' st' en' fetch JSON_parse = Inl e''" by (simp add: lichess_try_def)
  then show "fetchLichessGames v gt' st' en' fetch JSON_parse = Inl (rethrown e'')"
    by (simp add: fetchLichessGames_def catchBlock_Inl)
next
  show "rethrown (ErrorObject n m) = ErrorObject n m" by (simp add: rethrown_def)
next
  show "rethrown (OtherValue x) = noGamesFound" by (simp add: rethrown_def)
qed

theorem catch_rethrows_every_Error_witness:
  "fetchChessComGames ''bob'' (Num 0) None ''all'' january networkDown (serving (Some [])) =
     Inl (ErrorObject ''TypeError'' ''Failed to fetch'') \<and>
   fetchLichessGames ''bob'' ''all'' (Num 0) (Num 1800000000000) (serving ''{'') malformedLine =
     Inl (ErrorObject ''SyntaxError'' ''Unexpected end of JSON input'') \<and>
   fetchLichessGames ''bob'' ''all'' (Num 0) (Num 1800000000000)
       (\<lambda>address. Inl (OtherValue ''timeout'')) malformedLine = Inl noGamesFound \<and>
   fetchChessComGames ''bob'' (Num 0) None ''all'' january
       (\<lambda>address. Inl (OtherValue ''timeout'')) (serving (Some [])) = Inl noGamesFound"
  using catch_rethrows_every_Error
    [where u = "''bob''" and st = "Num 0" and en = None and gt = "''all''" and span = january
       and fa = networkDown and fg = "serving (Some [])"
       and n = "''TypeError''" and m = "''Failed to fetch''"
       and e = "ErrorObject ''TypeError'' ''Failed to fetch''"
       and v = "''bob''" and gt' = "''all''" and st' = "Num 0" and en' = "Num 1800000000000"
       and fetch = "serving ''{''" and JSON_parse = malformedLine and bodyText = "''{''"
       and n' = "''SyntaxError''" and m' = "''Unexpected end of JSON input''"
       and e'' = "ErrorObject ''SyntaxError'' ''Unexpected end of JSON input''"]
    catch_rethrows_every_Error
    [where u = "''bob''" and st = "Num 0" and en = None and gt = "''all''" and span = january
       and fa = "\<lambda>address. Inl (OtherValue ''timeout'')" and fg = "serving (Some [])"
       and x = "''timeout''" and e = "OtherValue ''timeout''"
       and v = "''bob''" and gt' = "''all''" and st' = "Num 0" and en' = "Num 1800000000000"
       and fetch = "\<lambda>address. Inl (OtherValue ''timeout'')" and JSON_parse = malformedLine
       and x' = "''timeout''" and e' = "OtherValue ''timeout''"]
  by (simp add: chesscom_try_def lichess_try_def networkDown_def malformedLine_def serving_def
      trim_def isSpace_def rethrown_def)

text \<open>
  Claim C3 as the spec words it fails: with the network down, both adapters surface
  the \<open>TypeError\<close>, and a malformed line surfaces the \<open>SyntaxError\<close>; neither is
  the error \<open>No games found\<close>.
\<close>

theorem catch_keeps_unexpected_errors_counterexample:
  "fetchChessComGames ''bob'' (Num 0) None ''all'' january networkDown (serving (Some [])) =
     Inl (ErrorObject ''TypeError'' ''Failed to fetch'') \<and>
   fetchLichessGames ''bob'' ''all'' (Num 0) (Num 1800000000000) networkDown malformedLine =
     Inl (ErrorObject ''TypeError'' ''Failed to fetch'') \<and>
   fetchLichessGames ''bob'' ''all'' (Num 0) (Num 1800000000000) (serving ''{'') malformedLine =
     Inl (ErrorObject ''SyntaxError'' ''Unexpected end of JSON input'') \<and>
   ErrorObject ''TypeError'' ''Failed to fetch'' \<noteq> noGamesFound \<and>
   ErrorObject ''SyntaxError'' ''Unexpected end of JSON input'' \<noteq> noGamesFound"
  by (simp add: fetchChessComGames_def chesscom_try_def fetchLichessGames_def lichess_try_def
      networkDown_def malformedLine_def serving_def catchBlock_def noGamesFound_def trim_def
      isSpace_def)

subsection \<open>Outcome and rating relative to the queried user\<close>

text \<open>Service A computes both relative to the queried user.\<close>

lemma chesscom_normalize_relative:
  assumes "chesscom_normalize user game = Inr r"
  shows "n_result r =
           (if result (white game) = ''win''
            then (if toLowerCase (username (white game)) = toLowerCase user then Win else Loss)
            else if result (black game) = ''win''
            then (if toLowerCase (username (white game)) = toLowerCase user then Loss else Win)
            else Draw)"
    and "n_rating r =
           (if toLowerCase (username (white game)) = toLowerCase user
            then rating (white game) else rating (black game))"
  using assms by (auto simp: chesscom_normalize_def Let_def split: sum.splits)

text \<open>
  Claim C1 at a game of service B that white won, queried as the black player \<open>bob\<close>:
  the result is \<open>Win\<close>, white's outcome, where the claim asks for \<open>Loss\<close>.
\<close>

theorem lichess_result_ignores_user:
  "map_sum id (map r_result)
     (fetchLichessGames ''bob'' ''all'' (Num 0) (Num 1800000000000) (serving ''{}'')
        (\<lambda>line. Inr exampleGame)) = Inr [Win] \<and>
   winner exampleGame = Some White \<and>
   toLowerCase (name (l_black exampleGame)) = toLowerCase ''bob''"
  by (simp add: fetchLichessGames_example) (simp add: exampleGame_def toLowerCase_examples)

text \<open>
  Claim C7 at the same game queried as the black player \<open>bob\<close>, rated 1400: the rating
  of the returned game is 1500, white's.
\<close>

theorem lichess_rating_ignores_user:
  "map_sum id (map r_rating)
     (fetchLichessGames ''bob'' ''all'' (Num 0) (Num 1800000000000) (serving ''{}'')
        (\<lambda>line. Inr exampleGame)) = Inr [1500] \<and>
   l_rating (l_black exampleGame) = 1400 \<and>
   toLowerCase (name (l_black exampleGame)) = toLowerCase ''bob''"
  by (simp add: fetchLichessGames_example) (simp add: exampleGame_def toLowerCase_examples)

subsection \<open>Colour and full-move number in formatPGN\<close>

text \<open>A ply without an annotation, and a ply whose annotation holds a clock, turn the
  colour and advance the full-move number after black; a ply whose annotation holds no
  clock leaves every variable of the loop as it was. So after \<open>n\<close> usable plies the
  colour is white exactly when \<open>n\<close> is even, and the full-move number has grown by
  \<open>n div 2\<close>.\<close>

lemma tokenize_skippedPlyPgn:
  "tokenize skippedPlyPgn =
     [''1. e4 {[%clk 0:09:58]}'', ''1... e5 {[%eval 0.2]}'', ''2. Nf3 {[%clk 0:09:50]}'']"
  by (simp add: skippedPlyPgn_def eval_defs)

lemma formatPGN_skippedPlyPgn:
  "formatPGN skippedPlyPgn =
     (''1. e4 2. Nf3'',
      [\<lparr>time = ''0:09:58'', moveText = ''e4'', moveNumber = 1, isWhite = True, timeSpent = None\<rparr>,
       \<lparr>time = ''0:09:50'', moveText = ''Nf3'', moveNumber = 1, isWhite = False, timeSpent = None\<rparr>])"
  by (simp add: skippedPlyPgn_def eval_defs)

lemma plyStep_without_annotation:
  "clockPattern tok = None \<Longrightarrow>
   isWhiteMove (plyStep st tok) = (\<not> isWhiteMove st) \<and>
   currentMoveNumber (plyStep st tok) =
     (if isWhiteMove st then currentMoveNumber st else currentMoveNumber st + 1) \<and>
   formattedMoves (plyStep st tok) = formattedMoves st @ [tok] \<and>
   clocks (plyStep st tok) = clocks st"
  by (simp add: plyStep_def)

lemma plyStep_with_clock:
  "clockPattern tok = Some (before, c, after) \<Longrightarrow> parseClockComment c = Some clock \<Longrightarrow>
   isWhiteMove (plyStep st tok) = (\<not> isWhiteMove st) \<and>
   currentMoveNumber (plyStep st tok) =
     (if isWhiteMove st then currentMoveNumber st else currentMoveNumber st + 1) \<and>
   formattedMoves (plyStep st tok) = formattedMoves st @ [trim (before @ after)] \<and>
   map (\<lambda>ci. (time ci, moveNumber ci, isWhite ci)) (clocks (plyStep st tok)) =
     map (\<lambda>ci. (time ci, moveNumber ci, isWhite ci)) (clocks st) @
       [(clock, currentMoveNumber st, isWhiteMove st)]"
  using parseClockComment_nonempty [of c clock] by (simp add: plyStep_def Let_def)

lemma plyStep_unparsable_annotation:
  "clockPattern tok = Some (before, c, after) \<Longrightarrow> parseClockComment c = None \<Longrightarrow>
   plyStep st tok = st"
  by (simp add: plyStep_def)

lemma plyStep_usable:
  assumes "usable tok"
  shows "isWhiteMove (plyStep st tok) = (\<not> isWhiteMove st)"
    and "currentMoveNumber (plyStep st tok) =
           (if isWhiteMove st then currentMoveNumber st else currentMoveNumber st + 1)"
proof -
  show "isWhiteMove (plyStep st tok) = (\<not> isWhiteMove st)"
  proof (cases "clockPattern tok")
    case None
    then show ?thesis by (simp add: plyStep_without_annotation)
  next
    case (Some g)
    obtain before c after where g: "g = (before, c, after)" by (cases g) auto
    with assms Some obtain clock where "parseClockComment c = Some clock"
      by (auto simp: usable_def)
    with Some g show ?thesis using plyStep_with_clock [of tok before c after clock st] by simp
  qed
  show "currentMoveNumber (plyStep st tok) =
           (if isWhiteMove st then currentMoveNumber st else currentMoveNumber st + 1)"
  proof (cases "clockPattern tok")
    case None
    then show ?thesis by (simp add: plyStep_without_annotation)
  next
    case (Some g)
    obtain before c after where g: "g = (before, c, after)" by (cases g) auto
    with assms Some obtain clock where "parseClockComment c = Some clock"
      by (auto simp: usable_def)
    with Some g show ?thesis using plyStep_with_clock [of tok before c after clock st] by simp
  qed
qed

lemma foldl_plyStep_usable:
  "list_all usable toks \<Longrightarrow> isWhiteMove st \<Longrightarrow>
   isWhiteMove (foldl plyStep st toks) = even (length toks) \<and>
   currentMoveNumber (foldl plyStep st toks) = currentMoveNumber st + length toks div 2"
proof (induction toks rule: rev_induct)
  case Nil
  then show ?case by simp
next
  case (snoc tok toks)
  then have ih: "isWhiteMove (foldl plyStep st toks) = even (length toks)"
    "currentMoveNumber (foldl plyStep st toks) = currentMoveNumber st + length toks div 2"
    and u: "usable tok" by simp_all
  show ?case
    using ih by (auto simp: plyStep_usable [OF u] elim: oddE)
qed

text \<open>Four plies that all carry a clock are numbered 1, 1, 2, 2 and coloured white,
  black, white, black.\<close>

lemma four_clocked_plies:
  "map (\<lambda>ci. (moveNumber ci, isWhite ci)) (snd (formatPGN examplePgn)) =
     [(1, True), (1, False), (2, True), (2, False)]"
  by (simp add: formatPGN_examplePgn)

text \<open>A ply without an annotation stays in the flattened move text.\<close>

lemma plyStep_keeps_text: "set (formattedMoves st) \<subseteq> set (formattedMoves (plyStep st tok))"
  by (auto simp: plyStep_def Let_def split: option.splits)

lemma foldl_plyStep_keeps_text:
  "set (formattedMoves st) \<subseteq> set (formattedMoves (foldl plyStep st toks))"
proof (induction toks arbitrary: st)
  case Nil
  then show ?case by simp
next
  case (Cons tok toks)
  have "set (formattedMoves st) \<subseteq> set (formattedMoves (plyStep st tok))"
    by (rule plyStep_keeps_text)
  also have "\<dots> \<subseteq> set (formattedMoves (foldl plyStep (plyStep st tok) toks))"
    by (rule Cons.IH)
  finally show ?case by simp
qed

lemma unannotated_ply_kept:
  "tok \<in> set toks \<Longrightarrow> clockPattern tok = None \<Longrightarrow>
   tok \<in> set (formattedMoves (foldl plyStep st toks))"
proof (induction toks arbitrary: st)
  case Nil
  then show ?case by simp
next
  case (Cons a toks)
  show ?case
  proof (cases "tok = a")
    case True
    then have "tok \<in> set (formattedMoves (plyStep st a))"
      using Cons.prems(2) by (simp add: plyStep_without_annotation)
    then show ?thesis using foldl_plyStep_keeps_text [of "plyStep st a" toks] by auto
  next
    case False
    then show ?thesis using Cons by simp
  qed
qed

text \<open>
  Claim C4 at a move list whose second ply (black's) has an annotation without a
  clock: the tokenizer yields three plies, the third ply \<open>Nf3\<close> is white's second move,
  and it is recorded as a black ply of full move 1.
\<close>

theorem unparsable_clock_keeps_colour:
  "tokenize skippedPlyPgn =
     [''1. e4 {[%clk 0:09:58]}'', ''1... e5 {[%eval 0.2]}'', ''2. Nf3 {[%clk 0:09:50]}''] \<and>
   map (\<lambda>ci. (moveText ci, moveNumber ci, isWhite ci)) (snd (formatPGN skippedPlyPgn)) =
     [(''e4'', 1, True), (''Nf3'', 1, False)]"
  by (simp add: tokenize_skippedPlyPgn formatPGN_skippedPlyPgn)

text \<open>
  Claim C6 at the same move list: the second of the three tokenized plies yields no
  clock and is missing from the flattened move text.
\<close>

theorem unparsable_clock_drops_ply_from_text:
  "tokenize skippedPlyPgn =
     [''1. e4 {[%clk 0:09:58]}'', ''1... e5 {[%eval 0.2]}'', ''2. Nf3 {[%clk 0:09:50]}''] \<and>
   fst (formatPGN skippedPlyPgn) = ''1. e4 2. Nf3''"
  by (simp add: tokenize_skippedPlyPgn formatPGN_skippedPlyPgn)

end
